theory Spec2Isabelle
  imports Main "HOL-Library.Sublist" "HOL-Library.Char_ord" "HOL-Library.List_Lexorder"
    "HOL-Library.AList"
begin

section \<open>The airline assistant of \<^verbatim>\<open>airline.py\<close>\<close>

text \<open>
  The class \<^verbatim>\<open>AirlineAIAssistant\<close> is embedded as functions over an explicit
  assistant state. A \<^typ>\<open>string\<close> is the text of a Python \<^verbatim>\<open>str\<close>; the case,
  white-space and digit tests below are Python's on ASCII text, and a character beyond
  ASCII is carried unchanged (the pictographs of the response texts are such characters,
  written as the bytes the source file holds). The three effects of the class that are
  not a function of its arguments are inputs of the model, gathered in the record
  \<open>env\<close>: the results of the random draws, the clock, and whether a file can be written.
\<close>

subsection \<open>Python's string operations\<close>

definition nl :: string where
  "nl = [CHR 0x0A]"

text \<open>\<^verbatim>\<open>str.isspace\<close> on ASCII: tab, line feed, vertical tab, form feed, carriage
  return, the four separators \<^verbatim>\<open>\x1c\<close> to \<^verbatim>\<open>\x1f\<close>, and the blank.\<close>

definition is_space :: "char \<Rightarrow> bool" where
  "is_space c = (c \<in> set [CHR 0x09, CHR 0x0A, CHR 0x0B, CHR 0x0C, CHR 0x0D,
                            CHR 0x1C, CHR 0x1D, CHR 0x1E, CHR 0x1F, CHR 0x20])"

definition is_upper :: "char \<Rightarrow> bool" where
  "is_upper c = (CHR ''A'' \<le> c \<and> c \<le> CHR ''Z'')"

definition is_lower :: "char \<Rightarrow> bool" where
  "is_lower c = (CHR ''a'' \<le> c \<and> c \<le> CHR ''z'')"

definition is_digit :: "char \<Rightarrow> bool" where
  "is_digit c = (CHR ''0'' \<le> c \<and> c \<le> CHR ''9'')"

definition lower_char :: "char \<Rightarrow> char" where
  "lower_char c = (if is_upper c then char_of (of_char c + (32::nat)) else c)"

definition upper_char :: "char \<Rightarrow> char" where
  "upper_char c = (if is_lower c then char_of (of_char c - (32::nat)) else c)"

text \<open>\<^verbatim>\<open>s.lower()\<close> and \<^verbatim>\<open>s.strip()\<close>.\<close>

definition py_lower :: "string \<Rightarrow> string" where
  "py_lower s = map lower_char s"

definition py_strip :: "string \<Rightarrow> string" where
  "py_strip s = rev (dropWhile is_space (rev (dropWhile is_space s)))"

text \<open>\<^verbatim>\<open>s.title()\<close>: a cased character is put in upper case when the character before
  it is not cased, in lower case otherwise.\<close>

fun title_from :: "bool \<Rightarrow> string \<Rightarrow> string" where
  "title_from previous_is_cased [] = []"
| "title_from previous_is_cased (c # cs) =
     (if is_lower c then
        (if previous_is_cased then c else upper_char c) # title_from True cs
      else if is_upper c then
        (if previous_is_cased then lower_char c else c) # title_from True cs
      else c # title_from False cs)"

definition py_title :: "string \<Rightarrow> string" where
  "py_title s = title_from False s"

text \<open>\<^verbatim>\<open>s.split()\<close>: the maximal runs of characters that are not white space. The first
  argument is the run being read, in reverse.\<close>

fun words_from :: "string \<Rightarrow> string \<Rightarrow> string list" where
  "words_from acc [] = (if acc = [] then [] else [rev acc])"
| "words_from acc (c # cs) =
     (if is_space c then (if acc = [] then words_from [] cs else rev acc # words_from [] cs)
      else words_from (c # acc) cs)"

definition py_split :: "string \<Rightarrow> string list" where
  "py_split s = words_from [] s"

text \<open>\<^verbatim>\<open>s.split(d)\<close> for a one-character separator: the empty text gives one empty
  piece.\<close>

fun split_on :: "char \<Rightarrow> string \<Rightarrow> string list" where
  "split_on d [] = [[]]"
| "split_on d (c # cs) =
     (if c = d then [] # split_on d cs
      else (case split_on d cs of [] \<Rightarrow> [[c]] | p # ps \<Rightarrow> (c # p) # ps))"

text \<open>\<^verbatim>\<open>sep.join(xs)\<close>, and \<^verbatim>\<open>xs.index(x)\<close> with \<open>None\<close> for its \<^verbatim>\<open>ValueError\<close>.\<close>

fun join :: "string \<Rightarrow> string list \<Rightarrow> string" where
  "join sep [] = []"
| "join sep [x] = x"
| "join sep (x # y # ys) = x @ sep @ join sep (y # ys)"

fun index_of :: "'a \<Rightarrow> 'a list \<Rightarrow> nat option" where
  "index_of x [] = None"
| "index_of x (y # ys) = (if x = y then Some 0 else map_option Suc (index_of x ys))"

text \<open>\<^verbatim>\<open>any(word in message for word in words)\<close>: \<^verbatim>\<open>in\<close> on texts is the test for a
  contiguous part, \<^const>\<open>sublist\<close>.\<close>

definition any_in :: "string list \<Rightarrow> string \<Rightarrow> bool" where
  "any_in keywords message = list_ex (\<lambda>word. sublist word message) keywords"

text \<open>\<^verbatim>\<open>str(n)\<close> for an integer, and the rendering of a value that may be \<^verbatim>\<open>None\<close>
  inside an f-string.\<close>

fun str_nat :: "nat \<Rightarrow> string" where
  "str_nat n = (if n < 10 then [char_of (48 + n)]
                else str_nat (n div 10) @ [char_of (48 + n mod 10)])"

declare str_nat.simps [simp del]

definition str_int :: "int \<Rightarrow> string" where
  "str_int i = (if i < 0 then CHR ''-'' # str_nat (nat (- i)) else str_nat (nat i))"

definition str_opt :: "string option \<Rightarrow> string" where
  "str_opt v = (case v of None \<Rightarrow> ''None'' | Some s \<Rightarrow> s)"

definition str_int_opt :: "int option \<Rightarrow> string" where
  "str_int_opt v = (case v of None \<Rightarrow> ''None'' | Some i \<Rightarrow> str_int i)"

text \<open>\<^verbatim>\<open>int(s)\<close> in base ten: white space around, an optional sign, then digits, where
  single underscores may stand between two digits. \<open>None\<close> is its \<^verbatim>\<open>ValueError\<close>.
  The flag of \<open>parse_digits\<close> says that the character before was a digit. (The
  digits and the white space beyond ASCII that \<^verbatim>\<open>int\<close> also reads, and the interpreter's
  configurable limit on the number of digits, are not part of the model.)\<close>

fun parse_digits :: "bool \<Rightarrow> int \<Rightarrow> string \<Rightarrow> int option" where
  "parse_digits after_digit acc [] = (if after_digit then Some acc else None)"
| "parse_digits after_digit acc (c # cs) =
     (if is_digit c then parse_digits True (10 * acc + (int (of_char c) - 48)) cs
      else if c = CHR ''_'' \<and> after_digit then parse_digits False acc cs
      else None)"

definition py_int :: "string \<Rightarrow> int option" where
  "py_int s =
     (case py_strip s of
        [] \<Rightarrow> None
      | c # cs \<Rightarrow>
          if c = CHR ''+'' then parse_digits False 0 cs
          else if c = CHR ''-'' then map_option uminus (parse_digits False 0 cs)
          else parse_digits False 0 (c # cs))"

subsection \<open>The pictographs of the response texts\<close>

definition cross_mark :: string where
  "cross_mark = [CHR 0xC3, CHR 0xA2, CHR 0xC5, CHR 0x92]"

definition plane_mark :: string where
  "plane_mark = [CHR 0xC3, CHR 0xA2, CHR 0xC5, CHR 0x93, CHR 0xCB, CHR 0x86, CHR 0xC3, CHR 0xAF, CHR 0xC2, CHR 0xB8]"

definition bullet_mark :: string where
  "bullet_mark = [CHR 0xC3, CHR 0xA2, CHR 0xE2, CHR 0x82, CHR 0xAC, CHR 0xC2, CHR 0xA2]"

definition check_mark :: string where
  "check_mark = [CHR 0xC3, CHR 0xA2, CHR 0xC5, CHR 0x93, CHR 0xE2, CHR 0x80, CHR 0xA6]"

definition chart_mark :: string where
  "chart_mark = [CHR 0xC4, CHR 0x9F, CHR 0xC5, CHR 0xB8, CHR 0xE2, CHR 0x80, CHR 0x9C, CHR 0xC5, CHR 0xA0]"

definition arrow_mark :: string where
  "arrow_mark = [CHR 0xC3, CHR 0xA2, CHR 0xE2, CHR 0x80, CHR 0xA0, CHR 0xE2, CHR 0x80, CHR 0x99]"

definition trend_mark :: string where
  "trend_mark = [CHR 0xC4, CHR 0x9F, CHR 0xC5, CHR 0xB8, CHR 0xE2, CHR 0x80, CHR 0x9C, CHR 0xCB, CHR 0x86]"

definition takeoff_mark :: string where
  "takeoff_mark = [CHR 0xC4, CHR 0x9F, CHR 0xC5, CHR 0xB8, CHR 0xE2, CHR 0x80, CHR 0xBA, CHR 0xC2, CHR 0xAB]"

definition ticket_mark :: string where
  "ticket_mark = [CHR 0xC4, CHR 0x9F, CHR 0xC5, CHR 0xB8, CHR 0xC2, CHR 0xAB]"

definition search_mark :: string where
  "search_mark = [CHR 0xC4, CHR 0x9F, CHR 0xC5, CHR 0xB8, CHR 0xE2, CHR 0x80, CHR 0x9D]"

definition robot_mark :: string where
  "robot_mark = [CHR 0xC4, CHR 0x9F, CHR 0xC5, CHR 0xB8, CHR 0xC2, CHR 0xA4, CHR 0xE2, CHR 0x80, CHR 0x93]"

definition cycle_mark :: string where
  "cycle_mark = [CHR 0xC4, CHR 0x9F, CHR 0xC5, CHR 0xB8, CHR 0xE2, CHR 0x80, CHR 0x9D, CHR 0xE2, CHR 0x80, CHR 0x9E]"

definition question_mark :: string where
  "question_mark = [CHR 0xC3, CHR 0xA2, CHR 0xE2, CHR 0x80, CHR 0x9C]"

definition thinking_mark :: string where
  "thinking_mark = [CHR 0xC4, CHR 0x9F, CHR 0xC5, CHR 0xB8, CHR 0xC2, CHR 0xA4, CHR 0xE2, CHR 0x80, CHR 0x9D]"

definition party_mark :: string where
  "party_mark = [CHR 0xC4, CHR 0x9F, CHR 0xC5, CHR 0xB8, CHR 0xE2, CHR 0x80, CHR 0xB0]"

definition clipboard_mark :: string where
  "clipboard_mark = [CHR 0xC4, CHR 0x9F, CHR 0xC5, CHR 0xB8, CHR 0xE2, CHR 0x80, CHR 0x9C, CHR 0xE2, CHR 0x80, CHR 0xB9]"

subsection \<open>Data\<close>

record flight =
  airline :: string
  departure :: string
  price :: int
  duration :: string

text \<open>The dictionaries \<^verbatim>\<open>self.flights_data\<close> and \<^verbatim>\<open>self.seat_assignments\<close> are
  association lists in the order of insertion: \<^const>\<open>map_of\<close> reads a key and
  \<^const>\<open>AList.update\<close> assigns to one.\<close>

type_synonym catalog = "(string \<times> (string \<times> flight list) list) list"

datatype step = Start | Get_source | Get_destination | Select_flight | Get_passenger_details

record session =
  source :: "string option"
  destination :: "string option"
  selected_flight :: "flight option"
  passenger_name :: "string option"
  passenger_age :: "int option"
  step :: step

text \<open>The dictionary \<^verbatim>\<open>booking_data\<close>. The fields that \<^verbatim>\<open>flight\<close> or \<^verbatim>\<open>session\<close> also
  have carry the prefix \<open>b_\<close>; those copied from the session hold whatever the session
  held, \<^verbatim>\<open>None\<close> included.\<close>

record booking =
  booking_number :: string
  booking_date :: string
  b_passenger_name :: "string option"
  b_passenger_age :: "int option"
  b_source :: "string option"
  b_destination :: "string option"
  b_airline :: string
  departure_time :: string
  b_duration :: string
  b_price :: int
  seat_number :: string

record assistant =
  flights_data :: catalog
  bookings :: "booking list"
  booking_counter :: int
  seat_assignments :: "(string \<times> string list) list"
  current_session :: session

text \<open>What the class takes from outside: \<open>draws i\<close> is the result of the \<open>i\<close>-th pair of
  calls \<^verbatim>\<open>random.randint(1, 30)\<close>, \<^verbatim>\<open>random.choice(['A', ..., 'F'])\<close> of one seat
  assignment; \<open>clock\<close> is the formatted \<^verbatim>\<open>datetime.now()\<close>; \<open>write_error name\<close> is the
  text of the exception that writing the file \<open>name\<close> raises, \<open>None\<close> when it succeeds.\<close>

record env =
  draws :: "nat \<Rightarrow> int \<times> char"
  clock :: string
  write_error :: "string \<Rightarrow> string option"

definition valid_draw :: "int \<times> char \<Rightarrow> bool" where
  "valid_draw d = (1 \<le> fst d \<and> fst d \<le> 30 \<and> snd d \<in> set ''ABCDEF'')"

text \<open>The exceptions that the modelled code can raise.\<close>

datatype exn = KeyError "string option" | TypeError string | AttributeError string

fun str_exn :: "exn \<Rightarrow> string" where
  "str_exn (KeyError k) = (case k of None \<Rightarrow> ''None'' | Some s \<Rightarrow> [CHR 0x27] @ s @ [CHR 0x27])"
| "str_exn (TypeError m) = m"
| "str_exn (AttributeError m) = m"

definition not_subscriptable :: exn where
  "not_subscriptable = TypeError ([CHR 0x27] @ ''NoneType'' @ [CHR 0x27] @ '' object is not subscriptable'')"

definition no_replace :: exn where
  "no_replace = AttributeError ([CHR 0x27] @ ''NoneType'' @ [CHR 0x27] @
     '' object has no attribute '' @ [CHR 0x27] @ ''replace'' @ [CHR 0x27])"

definition mk_flight :: "string \<Rightarrow> string \<Rightarrow> int \<Rightarrow> string \<Rightarrow> flight" where
  "mk_flight a d p u = \<lparr>airline = a, departure = d, price = p, duration = u\<rparr>"

definition sample_flights :: catalog where
  "sample_flights =
    [(''New York'',
        [(''Los Angeles'',
            [mk_flight ''SkyWings'' ''08:00'' 299 ''5h 30m'',
             mk_flight ''AeroFly'' ''14:30'' 329 ''5h 45m'',
             mk_flight ''CloudJet'' ''19:15'' 279 ''5h 20m'']),
         (''Miami'',
            [mk_flight ''SunAir'' ''06:45'' 189 ''3h 15m'',
             mk_flight ''TropicWings'' ''16:20'' 209 ''3h 05m'']),
         (''Chicago'',
            [mk_flight ''WindyCity Express'' ''10:30'' 159 ''2h 45m'',
             mk_flight ''GreatLakes Air'' ''18:45'' 179 ''2h 30m''])]),
     (''Los Angeles'',
        [(''New York'',
            [mk_flight ''EastCoast Air'' ''07:00'' 319 ''5h 15m'',
             mk_flight ''TransContinental'' ''12:45'' 289 ''5h 25m'']),
         (''Seattle'',
            [mk_flight ''PacificWings'' ''09:15'' 149 ''2h 40m'',
             mk_flight ''NorthWest Air'' ''15:30'' 169 ''2h 50m''])]),
     (''Miami'',
        [(''New York'',
            [mk_flight ''Atlantic Express'' ''11:20'' 199 ''3h 10m'',
             mk_flight ''Coastal Air'' ''17:40'' 219 ''3h 20m''])]),
     (''Chicago'',
        [(''New York'',
            [mk_flight ''Midwest Express'' ''08:30'' 169 ''2h 35m'',
             mk_flight ''Central Air'' ''14:15'' 189 ''2h 40m''])]),
     (''Seattle'',
        [(''Los Angeles'',
            [mk_flight ''Coast to Coast'' ''13:00'' 159 ''2h 45m'',
             mk_flight ''Western Wings'' ''20:30'' 139 ''2h 55m''])])]"

definition empty_session :: session where
  "empty_session =
     \<lparr>source = None, destination = None, selected_flight = None,
      passenger_name = None, passenger_age = None, step = Start\<rparr>"

text \<open>The state that \<^verbatim>\<open>__init__\<close> builds.\<close>

definition init_assistant :: assistant where
  "init_assistant =
     \<lparr>flights_data = sample_flights, bookings = [], booking_counter = 1000,
      seat_assignments = [], current_session = empty_session\<rparr>"

subsection \<open>The response texts\<close>

definition dup_city_text :: "string" where
  "dup_city_text =
     cross_mark @ '' Error: Source and destination cannot be the same city.''"

definition avail_header_text :: "string \<Rightarrow> string \<Rightarrow> string" where
  "avail_header_text src dst =
     plane_mark @ '' **Available flights from '' @ src @ '' to '' @ dst @ '':**'' @ nl @ nl"

definition avail_option_text :: "nat \<Rightarrow> string" where
  "avail_option_text i =
     ''**Option '' @ str_nat i @ '':**'' @ nl"

definition avail_airline_text :: "flight \<Rightarrow> string" where
  "avail_airline_text f =
     bullet_mark @ '' Airline: '' @ airline f @ nl"

definition avail_departure_text :: "flight \<Rightarrow> string" where
  "avail_departure_text f =
     bullet_mark @ '' Departure: '' @ departure f @ nl"

definition avail_duration_text :: "flight \<Rightarrow> string" where
  "avail_duration_text f =
     bullet_mark @ '' Duration: '' @ duration f @ nl"

definition avail_price_text :: "flight \<Rightarrow> string" where
  "avail_price_text f =
     bullet_mark @ '' Price: $'' @ str_int (price f) @ nl @ nl"

definition no_flights_text :: "string \<Rightarrow> string \<Rightarrow> string" where
  "no_flights_text src dst =
     cross_mark @ '' Sorry, no flights available from '' @ src @ '' to '' @ dst @ ''.''"

definition ticket_saved_text :: "string \<Rightarrow> string" where
  "ticket_saved_text filename =
     check_mark @ '' Ticket saved as: '' @ filename"

definition ticket_error_text :: "string \<Rightarrow> string" where
  "ticket_error_text e =
     cross_mark @ '' Error saving ticket: '' @ e"

definition no_bookings_text :: "string" where
  "no_bookings_text =
     chart_mark @ '' No bookings to summarize yet.''"

definition report_ok_text :: "nat \<Rightarrow> int \<Rightarrow> string" where
  "report_ok_text n total_revenue =
     chart_mark @ '' Summary report generated successfully! File: summary_report.txt'' @ nl @
     trend_mark @ '' Total bookings: '' @ str_nat n @ '' | Total revenue: $'' @
     str_int total_revenue"

definition report_error_text :: "string \<Rightarrow> string" where
  "report_error_text e =
     cross_mark @ '' Error generating report: '' @ e"

definition welcome_text :: "string \<Rightarrow> string" where
  "welcome_text cities =
     takeoff_mark @ '' Welcome to Airline AI Assistant! I can help you:'' @ nl @ nl @
     plane_mark @ '' Check flight availability'' @ nl @ ticket_mark @
     '' Book flights step-by-step'' @ nl @ chart_mark @ '' Generate booking reports'' @ nl @
     nl @ ''Available cities: '' @ cities @ nl @ nl @ ''How can I assist you today?''"

definition check_usage_text :: "string \<Rightarrow> string" where
  "check_usage_text cities =
     search_mark @ '' To check flight availability, please specify:'' @ nl @ [CHR 0x27] @
     ''Check flights from [Source City] to [Destination City]'' @ [CHR 0x27] @ nl @ nl @
     ''Available cities: '' @ cities"

definition book_prompt_text :: "string \<Rightarrow> string" where
  "book_prompt_text cities =
     ticket_mark @ '' Let'' @ [CHR 0x27] @ ''s book your flight! '' @ nl @ nl @
     ''Step 1: Which city are you departing from?'' @ nl @ ''Available cities: '' @ cities"

definition help_text :: "string" where
  "help_text =
     robot_mark @ '' **Available Commands:**'' @ nl @ ''            '' @ nl @ plane_mark @
     '' **Flight Search:** '' @ [CHR 0x22] @ ''Check flights from [City] to [City]'' @
     [CHR 0x22] @ nl @ ticket_mark @ '' **Book Flight:** '' @ [CHR 0x22] @ ''Book'' @
     [CHR 0x22] @ '' or '' @ [CHR 0x22] @ ''Book flight'' @ [CHR 0x22] @ nl @ chart_mark @
     '' **Generate Report:** '' @ [CHR 0x22] @ ''Generate report'' @ [CHR 0x22] @ '' or '' @
     [CHR 0x22] @ ''Summary'' @ [CHR 0x22] @ nl @ cycle_mark @ '' **Reset/Start Over:** '' @
     [CHR 0x22] @ ''Reset'' @ [CHR 0x22] @ '' or '' @ [CHR 0x22] @ ''Start over'' @
     [CHR 0x22] @ nl @ question_mark @ '' **Help:** '' @ [CHR 0x22] @ ''Help'' @ [CHR 0x22] @
     '' or '' @ [CHR 0x22] @ ''Commands'' @ [CHR 0x22] @ nl @ nl @
     ''**Available Cities:** New York, Los Angeles, Miami, Chicago, Seattle'' @ nl @ nl @
     ''**Example:** '' @ [CHR 0x22] @ ''Check flights from New York to Los Angeles'' @
     [CHR 0x22] @ '' ''"

definition reset_text :: "string" where
  "reset_text =
     cycle_mark @ '' Session reset! How can I help you today?''"

definition unrecognized_text :: "string" where
  "unrecognized_text =
     thinking_mark @ '' I didn'' @ [CHR 0x27] @ ''t understand that. Type '' @ [CHR 0x27] @
     ''help'' @ [CHR 0x27] @ '' to see available commands, or try:'' @ nl @ bullet_mark @
     '' '' @ [CHR 0x27] @ ''Check flights from [city] to [city]'' @ [CHR 0x27] @ nl @
     bullet_mark @ '' '' @ [CHR 0x27] @ ''Book flight'' @ [CHR 0x27] @ nl @ bullet_mark @
     '' '' @ [CHR 0x27] @ ''Generate report'' @ [CHR 0x27]"

definition departure_ok_text :: "string \<Rightarrow> string \<Rightarrow> string" where
  "departure_ok_text source_city dests =
     check_mark @ '' Departure city: '' @ source_city @ nl @ nl @
     ''Step 2: Which city is your destination?'' @ nl @ ''Available destinations: '' @ dests"

definition invalid_departure_text :: "string \<Rightarrow> string" where
  "invalid_departure_text cities_str =
     cross_mark @ '' Please specify a valid departure city from: '' @ cities_str"

definition same_city_text :: "string" where
  "same_city_text =
     cross_mark @
     '' Destination cannot be the same as departure city. Please choose a different destination.''"

definition route_text :: "string \<Rightarrow> string \<Rightarrow> string" where
  "route_text src dst =
     check_mark @ '' Route: '' @ src @ '' '' @ arrow_mark @ '' '' @ dst @ nl @ nl"

definition flights_header_text :: "string" where
  "flights_header_text =
     plane_mark @ '' **Available Flights:**'' @ nl @ nl"

definition flow_option_text :: "nat \<Rightarrow> flight \<Rightarrow> string" where
  "flow_option_text i f =
     ''**Option '' @ str_nat i @ '':** '' @ airline f @ nl"

definition flow_departure_text :: "flight \<Rightarrow> string" where
  "flow_departure_text f =
     bullet_mark @ '' Departure: '' @ departure f @ nl"

definition flow_duration_text :: "flight \<Rightarrow> string" where
  "flow_duration_text f =
     bullet_mark @ '' Duration: '' @ duration f @ nl"

definition flow_price_text :: "flight \<Rightarrow> string" where
  "flow_price_text f =
     bullet_mark @ '' Price: $'' @ str_int (price f) @ nl @ nl"

definition select_prompt_text :: "string" where
  "select_prompt_text =
     ''Please select your flight by typing the option number (1, 2, 3, etc.)''"

definition invalid_destination_text :: "string \<Rightarrow> string" where
  "invalid_destination_text dests =
     cross_mark @ '' Please specify a valid destination from: '' @ dests"

definition flight_selected_text :: "flight \<Rightarrow> string" where
  "flight_selected_text f =
     check_mark @ '' **Flight Selected:**'' @ nl @ bullet_mark @ '' Airline: '' @ airline f @
     nl @ bullet_mark @ '' Departure: '' @ departure f @ nl @ bullet_mark @ '' Duration: '' @
     duration f @ nl @ bullet_mark @ '' Price: $'' @ str_int (price f) @ nl @ nl @
     ''Step 3: Please provide passenger details in this format:'' @ nl @ [CHR 0x27] @
     ''Name: [Full Name], Age: [Age]'' @ [CHR 0x27] @ nl @ nl @ ''Example: '' @ [CHR 0x27] @
     ''Name: John Smith, Age: 30'' @ [CHR 0x27]"

definition invalid_option_text :: "nat \<Rightarrow> string" where
  "invalid_option_text n =
     cross_mark @ '' Invalid option. Please select a number between 1 and '' @ str_nat n @
     ''.''"

definition option_number_text :: "string" where
  "option_number_text =
     cross_mark @ '' Please enter a valid flight option number (1, 2, 3, etc.)''"

definition age_range_text :: "string" where
  "age_range_text =
     cross_mark @ '' Please enter a valid age (0-120).''"

definition age_number_text :: "string" where
  "age_number_text =
     cross_mark @ '' Please enter a valid age as a number.''"

definition details_format_text :: "string" where
  "details_format_text =
     cross_mark @ '' Please provide details in the format: '' @ [CHR 0x27] @
     ''Name: [Full Name], Age: [Age]'' @ [CHR 0x27]"

definition flow_fallback_text :: "string" where
  "flow_fallback_text =
     thinking_mark @ '' I didn'' @ [CHR 0x27] @ ''t understand that. Type '' @ [CHR 0x27] @
     ''help'' @ [CHR 0x27] @ '' for assistance or '' @ [CHR 0x27] @ ''reset'' @ [CHR 0x27] @
     '' to start over.''"

definition booking_confirmed_text :: "booking \<Rightarrow> string \<Rightarrow> string" where
  "booking_confirmed_text b ticket_status =
     party_mark @ '' **Booking Confirmed!**'' @ nl @ nl @ clipboard_mark @
     '' **Booking Details:**'' @ nl @ bullet_mark @ '' Booking Number: '' @ booking_number b @
     nl @ bullet_mark @ '' Passenger: '' @ str_opt (b_passenger_name b) @ '' (Age: '' @
     str_int_opt (b_passenger_age b) @ '')'' @ nl @ bullet_mark @ '' Route: '' @
     str_opt (b_source b) @ '' '' @ arrow_mark @ '' '' @ str_opt (b_destination b) @ nl @
     bullet_mark @ '' Airline: '' @ b_airline b @ nl @ bullet_mark @ '' Departure: '' @
     departure_time b @ nl @ bullet_mark @ '' Duration: '' @ b_duration b @ nl @ bullet_mark @
     '' Seat: '' @ seat_number b @ nl @ bullet_mark @ '' Price: $'' @ str_int (b_price b) @
     nl @ nl @ ticket_status @ nl @ nl @ ''Thank you for booking with us! '' @ plane_mark @
     nl @ ''Type '' @ [CHR 0x27] @ ''book'' @ [CHR 0x27] @ '' to make another booking or '' @
     [CHR 0x27] @ ''report'' @ [CHR 0x27] @ '' to see all bookings.''"

definition booking_error_text :: "string \<Rightarrow> string" where
  "booking_error_text e =
     cross_mark @ '' Error completing booking: '' @ e @ ''. Please try again.''"

subsection \<open>The operations of the class\<close>

text \<open>\<^verbatim>\<open>get_available_cities\<close>: the keys of the catalog and of its inner dictionaries,
  as a set, then \<^verbatim>\<open>sorted\<close>.\<close>

definition get_available_cities :: "assistant \<Rightarrow> string list" where
  "get_available_cities a =
     sort (remdups (map fst (flights_data a) @
                    concat (map (\<lambda>destination_dict. map fst (snd destination_dict))
                                (flights_data a))))"

definition avail_block :: "nat \<times> flight \<Rightarrow> string" where
  "avail_block p =
     avail_option_text (fst p) @ avail_airline_text (snd p) @ avail_departure_text (snd p) @
     avail_duration_text (snd p) @ avail_price_text (snd p)"

definition check_flight_availability :: "assistant \<Rightarrow> string \<Rightarrow> string \<Rightarrow> string" where
  "check_flight_availability a src dst =
     (if py_lower src = py_lower dst then dup_city_text
      else case map_of (flights_data a) src of
             None \<Rightarrow> no_flights_text src dst
           | Some dests \<Rightarrow>
               (case map_of dests dst of
                  None \<Rightarrow> no_flights_text src dst
                | Some flights \<Rightarrow>
                    avail_header_text src dst @ concat (map avail_block (enumerate 1 flights))))"

text \<open>\<^verbatim>\<open>generate_seat_number\<close>. The loop \<^verbatim>\<open>while True\<close> has no bound, so it is a
  partial function: \<open>None\<close> is the loop that never returns. \<open>i\<close> counts the draws.\<close>

definition seat_of :: "int \<times> char \<Rightarrow> string" where
  "seat_of d = str_int (fst d) @ [snd d]"

partial_function (option) seat_loop ::
  "(nat \<Rightarrow> int \<times> char) \<Rightarrow> string list \<Rightarrow> nat \<Rightarrow> (string \<times> string list) option" where
  "seat_loop rnd issued i =
     (if seat_of (rnd i) \<notin> set issued
      then Some (seat_of (rnd i), issued @ [seat_of (rnd i)])
      else seat_loop rnd issued (i + 1))"

declare seat_loop.simps [code]

definition generate_seat_number ::
  "(nat \<Rightarrow> int \<times> char) \<Rightarrow> string \<Rightarrow> (string \<times> string list) list \<Rightarrow>
   (string \<times> (string \<times> string list) list) option" where
  "generate_seat_number rnd flight_key sa =
     (case seat_loop rnd (case map_of sa flight_key of None \<Rightarrow> [] | Some issued \<Rightarrow> issued) 0 of
        None \<Rightarrow> None
      | Some (seat, issued') \<Rightarrow> Some (seat, AList.update flight_key issued' sa))"

text \<open>\<^verbatim>\<open>create_ticket_file\<close>. The file name is built before the \<^verbatim>\<open>try\<close>, so a name
  that is \<^verbatim>\<open>None\<close> raises; a failure to write is caught and reported in the returned
  text. The text written to the file has no part in the result and is left out.\<close>

definition create_ticket_file :: "env \<Rightarrow> booking \<Rightarrow> exn + string" where
  "create_ticket_file e booking_data =
     (case b_passenger_name booking_data of
        None \<Rightarrow> Inl no_replace
      | Some name \<Rightarrow>
          (let filename = map (\<lambda>c. if c = CHR '' '' then CHR ''_'' else c) name @ ''_'' @
                          booking_number booking_data @ ''.txt''
           in case write_error e filename of
                None \<Rightarrow> Inr (ticket_saved_text filename)
              | Some err \<Rightarrow> Inr (ticket_error_text err)))"

definition generate_summary_report :: "env \<Rightarrow> assistant \<Rightarrow> string" where
  "generate_summary_report e a =
     (if bookings a = [] then no_bookings_text
      else case write_error e ''summary_report.txt'' of
             None \<Rightarrow> report_ok_text (length (bookings a)) (sum_list (map b_price (bookings a)))
           | Some err \<Rightarrow> report_error_text err)"

definition reset_session :: "assistant \<Rightarrow> assistant" where
  "reset_session a = a\<lparr>current_session := empty_session\<rparr>"

text \<open>The flight key that \<^verbatim>\<open>complete_booking\<close> builds (origin, destination and carrier,
  joined by dashes), and the seats that the table holds for a key, none when the key is
  absent.\<close>

definition flight_key_of :: "session \<Rightarrow> flight \<Rightarrow> string" where
  "flight_key_of s fl =
     str_opt (source s) @ ''-'' @ str_opt (destination s) @ ''-'' @ airline fl"

definition issued_for :: "(string \<times> string list) list \<Rightarrow> string \<Rightarrow> string list" where
  "issued_for sa flight_key = (case map_of sa flight_key of None \<Rightarrow> [] | Some issued \<Rightarrow> issued)"

text \<open>\<^verbatim>\<open>complete_booking\<close>. Every exception is caught: the session is reset and the text
  of the exception is returned. The counter has been incremented by then, and, when it
  is the ticket file that raises, the seat has been issued and the booking recorded.\<close>

definition complete_booking :: "env \<Rightarrow> assistant \<Rightarrow> (string \<times> assistant) option" where
  "complete_booking e a =
     (let s = current_session a;
          number = ''FL'' @ str_int (booking_counter a);
          a1 = a\<lparr>booking_counter := booking_counter a + 1\<rparr>
      in case selected_flight s of
           None \<Rightarrow> Some (booking_error_text (str_exn not_subscriptable), reset_session a1)
         | Some fl \<Rightarrow>
             (let flight_key = flight_key_of s fl
              in case generate_seat_number (draws e) flight_key (seat_assignments a1) of
                   None \<Rightarrow> None
                 | Some (seat, sa) \<Rightarrow>
                     (let booking_data =
                            \<lparr>booking_number = number, booking_date = clock e,
                             b_passenger_name = passenger_name s,
                             b_passenger_age = passenger_age s,
                             b_source = source s, b_destination = destination s,
                             b_airline = airline fl, departure_time = departure fl,
                             b_duration = duration fl, b_price = price fl,
                             seat_number = seat\<rparr>;
                          a2 = a1\<lparr>seat_assignments := sa,
                                  bookings := bookings a1 @ [booking_data]\<rparr>
                      in case create_ticket_file e booking_data of
                           Inl ex \<Rightarrow> Some (booking_error_text (str_exn ex), reset_session a2)
                         | Inr ticket_status \<Rightarrow>
                             Some (booking_confirmed_text booking_data ticket_status,
                                   reset_session a2))))"

text \<open>The city scan of \<^verbatim>\<open>handle_booking_flow\<close>: the first city of the list whose lower
  case occurs in the message; the test \<^verbatim>\<open>if source_city:\<close> then refuses an empty
  name.\<close>

definition match_city :: "string list \<Rightarrow> string \<Rightarrow> string option" where
  "match_city cities message =
     (case find (\<lambda>city. sublist (py_lower city) (py_lower message)) cities of
        None \<Rightarrow> None
      | Some city \<Rightarrow> if city = [] then None else Some city)"

text \<open>The scan of the comma-separated parts at \<^verbatim>\<open>get_passenger_details\<close>: a later part
  overrides an earlier one.\<close>

fun scan_parts ::
  "string list \<Rightarrow> string option \<times> string option \<Rightarrow> string option \<times> string option" where
  "scan_parts [] found = found"
| "scan_parts (part0 # parts) found =
     (let part = py_strip part0 in
      if prefix ''name:'' (py_lower part)
      then scan_parts parts (Some (py_strip (drop 5 part)), snd found)
      else if prefix ''age:'' (py_lower part)
      then scan_parts parts (fst found, Some (py_strip (drop 4 part)))
      else scan_parts parts found)"

definition flow_block :: "nat \<times> flight \<Rightarrow> string" where
  "flow_block p =
     flow_option_text (fst p) (snd p) @ flow_departure_text (snd p) @
     flow_duration_text (snd p) @ flow_price_text (snd p)"

text \<open>The guarded lookup of \<^verbatim>\<open>get_destination\<close>
  (\<^verbatim>\<open>source in flights_data and destination in flights_data[source]\<close>).\<close>

definition has_route :: "catalog \<Rightarrow> string option \<Rightarrow> string \<Rightarrow> flight list option" where
  "has_route fd src dst =
     (case src of
        None \<Rightarrow> None
      | Some so \<Rightarrow> (case map_of fd so of None \<Rightarrow> None | Some dests \<Rightarrow> map_of dests dst))"

text \<open>The unguarded lookup of \<^verbatim>\<open>select_flight\<close>
  (\<^verbatim>\<open>flights_data[source][destination]\<close>): a missing key raises \<^verbatim>\<open>KeyError\<close>.\<close>

definition route_or_raise :: "catalog \<Rightarrow> string option \<Rightarrow> string option \<Rightarrow> exn + flight list" where
  "route_or_raise fd src dst =
     (case (case src of None \<Rightarrow> None | Some so \<Rightarrow> map_of fd so) of
        None \<Rightarrow> Inl (KeyError src)
      | Some dests \<Rightarrow>
          (case (case dst of None \<Rightarrow> None | Some d \<Rightarrow> map_of dests d) of
             None \<Rightarrow> Inl (KeyError dst)
           | Some flights \<Rightarrow> Inr flights))"

definition handle_booking_flow ::
  "env \<Rightarrow> assistant \<Rightarrow> string \<Rightarrow> (exn + string \<times> assistant) option" where
  "handle_booking_flow e a message =
     (let cities = get_available_cities a; s = current_session a in
      if step s = Get_source then
        (case match_city cities message of
           Some source_city \<Rightarrow>
             Some (Inr (departure_ok_text source_city
                          (join '', '' (filter (\<lambda>city. city \<noteq> source_city) cities)),
                        a\<lparr>current_session := s\<lparr>source := Some source_city,
                                                step := Get_destination\<rparr>\<rparr>))
         | None \<Rightarrow> Some (Inr (invalid_departure_text (join '', '' cities), a)))
      else if step s = Get_destination then
        (case match_city cities message of
           Some destination_city \<Rightarrow>
             if Some destination_city = source s then Some (Inr (same_city_text, a))
             else
               (case has_route (flights_data a) (source s) destination_city of
                  Some flights \<Rightarrow>
                    Some (Inr (route_text (str_opt (source s)) destination_city @
                               flights_header_text @
                               concat (map flow_block (enumerate 1 flights)) @
                               select_prompt_text,
                               a\<lparr>current_session := s\<lparr>destination := Some destination_city,
                                                       step := Select_flight\<rparr>\<rparr>))
                | None \<Rightarrow>
                    Some (Inr (no_flights_text (str_opt (source empty_session)) destination_city,
                               reset_session a)))
         | None \<Rightarrow>
             Some (Inr (invalid_destination_text
                          (join '', '' (filter (\<lambda>city. Some city \<noteq> source s) cities)), a)))
      else if step s = Select_flight then
        (case py_int (py_strip message) of
           None \<Rightarrow> Some (Inr (option_number_text, a))
         | Some choice \<Rightarrow>
             (case route_or_raise (flights_data a) (source s) (destination s) of
                Inl ex \<Rightarrow> Some (Inl ex)
              | Inr flights \<Rightarrow>
                  if 1 \<le> choice \<and> choice \<le> int (length flights) then
                    Some (Inr (flight_selected_text (flights ! nat (choice - 1)),
                               a\<lparr>current_session :=
                                    s\<lparr>selected_flight := Some (flights ! nat (choice - 1)),
                                      step := Get_passenger_details\<rparr>\<rparr>))
                  else Some (Inr (invalid_option_text (length flights), a))))
      else if step s = Get_passenger_details then
        (case scan_parts (split_on CHR '','' message) (None, None) of
           (Some name_part, Some age_part) \<Rightarrow>
             if name_part \<noteq> [] \<and> age_part \<noteq> [] then
               (case py_int age_part of
                  None \<Rightarrow> Some (Inr (age_number_text, a))
                | Some age \<Rightarrow>
                    if age < 0 \<or> age > 120 then Some (Inr (age_range_text, a))
                    else map_option Inr
                           (complete_booking e
                              (a\<lparr>current_session := s\<lparr>passenger_name := Some name_part,
                                                      passenger_age := Some age\<rparr>\<rparr>)))
             else Some (Inr (details_format_text, a))
         | _ \<Rightarrow> Some (Inr (details_format_text, a)))
      else Some (Inr (flow_fallback_text, a)))"

text \<open>The block of \<^verbatim>\<open>process_message\<close> that reads a route out of a line with
  \<^verbatim>\<open>from\<close> and \<^verbatim>\<open>to\<close>: \<open>Some\<close> is the \<^verbatim>\<open>return\<close> inside it, \<open>None\<close> is falling
  through to the usage text.\<close>

definition extract_route :: "assistant \<Rightarrow> string \<Rightarrow> string option" where
  "extract_route a message =
     (if sublist ''from'' message \<and> sublist ''to'' message then
        (let parts = py_split message in
         case index_of ''from'' parts of
           None \<Rightarrow> None
         | Some from_idx \<Rightarrow>
             (case index_of ''to'' parts of
                None \<Rightarrow> None
              | Some to_idx \<Rightarrow>
                  if from_idx < to_idx \<and> from_idx + 1 < length parts \<and>
                     to_idx + 1 < length parts
                  then Some (check_flight_availability a
                               (py_title (parts ! (from_idx + 1)))
                               (py_title (parts ! (to_idx + 1))))
                  else None))
      else None)"

definition process_message ::
  "env \<Rightarrow> assistant \<Rightarrow> string \<Rightarrow> (exn + string \<times> assistant) option" where
  "process_message e a line =
     (let message = py_lower (py_strip line) in
      if any_in [''hello'', ''hi'', ''hey'', ''start''] message then
        Some (Inr (welcome_text (join '', '' (get_available_cities a)), reset_session a))
      else if any_in [''check'', ''availability'', ''flights'', ''search''] message then
        (case extract_route a message of
           Some response \<Rightarrow> Some (Inr (response, a))
         | None \<Rightarrow> Some (Inr (check_usage_text (join '', '' (get_available_cities a)), a)))
      else if any_in [''book'', ''booking'', ''reserve''] message then
        (if step (current_session a) = Start then
           Some (Inr (book_prompt_text (join '', '' (get_available_cities a)),
                      a\<lparr>current_session := (current_session a)\<lparr>step := Get_source\<rparr>\<rparr>))
         else handle_booking_flow e a message)
      else if any_in [''report'', ''summary''] message then
        Some (Inr (generate_summary_report e a, a))
      else if any_in [''help'', ''commands''] message then Some (Inr (help_text, a))
      else if any_in [''reset'', ''start over'', ''cancel''] message then
        Some (Inr (reset_text, reset_session a))
      else if step (current_session a) \<noteq> Start then handle_booking_flow e a message
      else Some (Inr (unrecognized_text, a)))"

text \<open>A conversation: the lines are processed one after the other, each with its own
  environment; an exception or a call that does not return ends it.\<close>

fun converse ::
  "assistant \<Rightarrow> (env \<times> string) list \<Rightarrow> (exn + string list \<times> assistant) option" where
  "converse a [] = Some (Inr ([], a))"
| "converse a (turn # turns) =
     (case process_message (fst turn) a (snd turn) of
        None \<Rightarrow> None
      | Some (Inl ex) \<Rightarrow> Some (Inl ex)
      | Some (Inr (response, a')) \<Rightarrow>
          (case converse a' turns of
             None \<Rightarrow> None
           | Some (Inl ex) \<Rightarrow> Some (Inl ex)
           | Some (Inr (responses, a'')) \<Rightarrow> Some (Inr (response # responses, a''))))"

text \<open>A sequence of seat assignments, each with its own draws and flight key.\<close>

fun issue_seats ::
  "(string \<times> string list) list \<Rightarrow> ((nat \<Rightarrow> int \<times> char) \<times> string) list \<Rightarrow>
   (string \<times> string list) list option" where
  "issue_seats sa [] = Some sa"
| "issue_seats sa (call # calls) =
     (case generate_seat_number (fst call) (snd call) sa of
        None \<Rightarrow> None
      | Some (seat, sa') \<Rightarrow> issue_seats sa' calls)"

text \<open>The 180 seat codes: 30 rows times 6 letters.\<close>

definition all_seats :: "string list" where
  "all_seats =
     concat (map (\<lambda>row. map (\<lambda>letter. str_int row @ [letter]) ''ABCDEF'') [1..30])"

definition seats_distinct :: "(string \<times> string list) list \<Rightarrow> bool" where
  "seats_distinct sa = (\<forall>key issued. map_of sa key = Some issued \<longrightarrow> distinct issued)"

text \<open>An environment for running the model on examples: the draws are 1A, 2A, 3A, ...,
  the clock stands still and every file can be written.\<close>

definition calm_env :: env where
  "calm_env =
     \<lparr>draws = (\<lambda>i. (int i + 1, CHR ''A'')), clock = ''2024-01-01 00:00:00'',
      write_error = (\<lambda>name. None)\<rparr>"

text \<open>The order in which claim C4 says the cities are tried: that of the keys of the
  catalog.\<close>

definition claimed_city_order :: "string list" where
  "claimed_city_order = [''New York'', ''Los Angeles'', ''Miami'', ''Chicago'', ''Seattle'']"

text \<open>The states that conversations reach from the initial one, whatever the environment
  of each message.\<close>

inductive reachable :: "assistant \<Rightarrow> bool" where
  initial: "reachable init_assistant"
| message: "reachable a \<Longrightarrow> process_message e a line = Some (Inr (response, a')) \<Longrightarrow> reachable a'"

text \<open>The session has an origin and a destination, and the catalog has a list of offers
  for the pair.\<close>

definition route_stored :: "assistant \<Rightarrow> bool" where
  "route_stored a =
     (case (source (current_session a), destination (current_session a)) of
        (Some src, Some dst) \<Rightarrow>
          (case route_or_raise (flights_data a) (Some src) (Some dst) of
             Inl ex \<Rightarrow> False
           | Inr flights \<Rightarrow> True)
      | _ \<Rightarrow> False)"

definition needs_route :: "assistant \<Rightarrow> bool" where
  "needs_route a =
     (step (current_session a) = Select_flight \<or> step (current_session a) = Get_passenger_details)"

text \<open>The invariant of the conversation: a step that needs the route has it.\<close>

definition route_inv :: "assistant \<Rightarrow> bool" where
  "route_inv a = (needs_route a \<longrightarrow> route_stored a)"





section \<open>Seat assignment\<close>

text \<open>What the loop returns when it returns: a seat that was not issued, appended to the
  list.\<close>

lemma seat_loop_result:
  assumes "seat_loop rnd issued i = Some r"
  shows "fst r \<notin> set issued \<and> snd r = issued @ [fst r] \<and> (\<exists>j. fst r = seat_of (rnd j))"
proof (rule seat_loop.raw_induct
    [where P = "\<lambda>rnd issued i r. fst r \<notin> set issued \<and> snd r = issued @ [fst r] \<and>
                                  (\<exists>j. fst r = seat_of (rnd j))", OF _ assms])
  fix loop :: "(nat \<Rightarrow> int \<times> char) \<Rightarrow> string list \<Rightarrow> nat \<Rightarrow> (string \<times> string list) option"
  fix rnd issued i r
  assume IH: "\<And>rnd issued i r. loop rnd issued i = Some r \<Longrightarrow>
      fst r \<notin> set issued \<and> snd r = issued @ [fst r] \<and> (\<exists>j. fst r = seat_of (rnd j))"
    and step: "(if seat_of (rnd i) \<notin> set issued
                then Some (seat_of (rnd i), issued @ [seat_of (rnd i)])
                else loop rnd issued (i + 1)) = Some r"
  show "fst r \<notin> set issued \<and> snd r = issued @ [fst r] \<and> (\<exists>j. fst r = seat_of (rnd j))"
  proof (cases "seat_of (rnd i) \<in> set issued")
    case True
    with step have "loop rnd issued (i + 1) = Some r" by simp
    then show ?thesis by (rule IH)
  next
    case False
    with step have "r = (seat_of (rnd i), issued @ [seat_of (rnd i)])" by simp
    with False show ?thesis by auto
  qed
qed

lemma seat_loop_never:
  assumes "\<And>j. seat_of (rnd j) \<in> set issued"
  shows "seat_loop rnd issued i = None"
proof (cases "seat_loop rnd issued i")
  case None
  then show ?thesis .
next
  case (Some r)
  from seat_loop_result [OF Some] obtain j
    where "fst r = seat_of (rnd j)" and "fst r \<notin> set issued" by blast
  with assms [of j] show ?thesis by simp
qed

lemma seat_loop_returns:
  "seat_of (rnd (i + k)) \<notin> set issued \<Longrightarrow> \<forall>j<k. seat_of (rnd (i + j)) \<in> set issued \<Longrightarrow>
   seat_loop rnd issued i = Some (seat_of (rnd (i + k)), issued @ [seat_of (rnd (i + k))])"
proof (induction k arbitrary: i)
  case 0
  then show ?case by (subst seat_loop.simps) simp
next
  case (Suc k)
  have here: "seat_of (rnd i) \<in> set issued" using Suc.prems(2) [rule_format, of 0] by simp
  have "seat_loop rnd issued (Suc i) = Some (seat_of (rnd (Suc i + k)), issued @ [seat_of (rnd (Suc i + k))])"
  proof (rule Suc.IH)
    show "seat_of (rnd (Suc i + k)) \<notin> set issued" using Suc.prems(1) by simp
    show "\<forall>j<k. seat_of (rnd (Suc i + j)) \<in> set issued"
    proof (intro allI impI)
      fix j assume "j < k"
      then have "Suc j < Suc k" by simp
      with Suc.prems(2) have "seat_of (rnd (i + Suc j)) \<in> set issued" by blast
      then show "seat_of (rnd (Suc i + j)) \<in> set issued" by simp
    qed
  qed
  with here show ?case by (subst seat_loop.simps) simp
qed

text \<open>The call returns as soon as one draw is a seat that is not issued.\<close>

lemma generate_seat_number_returns:
  assumes "seat_of (rnd k) \<notin> set (case map_of sa key of None \<Rightarrow> [] | Some issued \<Rightarrow> issued)"
  shows "\<exists>seat sa'. generate_seat_number rnd key sa = Some (seat, sa')"
proof -
  define old where "old = (case map_of sa key of None \<Rightarrow> [] | Some issued \<Rightarrow> issued)"
  define n where "n = (LEAST j. seat_of (rnd j) \<notin> set old)"
  from assms have "seat_of (rnd k) \<notin> set old" unfolding old_def .
  then have free: "seat_of (rnd n) \<notin> set old"
    unfolding n_def by (rule LeastI)
  have taken: "\<forall>j<n. seat_of (rnd (0 + j)) \<in> set old"
  proof (intro allI impI)
    fix j assume "j < n"
    then have "\<not> seat_of (rnd j) \<notin> set old"
      unfolding n_def by (rule not_less_Least)
    then show "seat_of (rnd (0 + j)) \<in> set old" by simp
  qed
  from free have "seat_of (rnd (0 + n)) \<notin> set old" by simp
  from seat_loop_returns [OF this taken]
  have "seat_loop rnd old 0 = Some (seat_of (rnd (0 + n)), old @ [seat_of (rnd (0 + n))])" .
  then show ?thesis by (simp add: generate_seat_number_def old_def)
qed

lemma valid_draw_all_seats: "valid_draw d \<Longrightarrow> seat_of d \<in> set all_seats"
  by (cases d) (auto simp: valid_draw_def seat_of_def all_seats_def)

text \<open>Claim C3. For a flight key whose issued seats already hold all 180 seat codes, the
  claim says that \<^verbatim>\<open>generate_seat_number\<close> ends with a capacity error. The code has no
  such error: whatever the draws (each a row from 1 to 30 and a letter from A to F), every
  drawn seat is found in the list and the loop goes on, so the call does not return.\<close>

theorem generate_seat_number_full_never_returns:
  assumes "\<forall>i. valid_draw (rnd i)" and "map_of sa key = Some issued"
    and "set all_seats \<subseteq> set issued"
  shows "generate_seat_number rnd key sa = None"
proof -
  have "seat_of (rnd j) \<in> set issued" for j
    using assms(1,3) valid_draw_all_seats [of "rnd j"] by blast
  then have "seat_loop rnd issued 0 = None"
    by (rule seat_loop_never)
  then show ?thesis using assms(2) by (simp add: generate_seat_number_def)
qed

theorem generate_seat_number_full_never_returns_witness:
  "(\<forall>i. valid_draw ((\<lambda>i. (7, CHR ''C'')) i)) \<and> map_of [(''k'', all_seats)] ''k'' = Some all_seats \<and>
   set all_seats \<subseteq> set all_seats \<and>
   generate_seat_number (\<lambda>i. (7, CHR ''C'')) ''k'' [(''k'', all_seats)] = None"
proof -
  have h1: "\<forall>i. valid_draw ((\<lambda>i. (7, CHR ''C'')) i)" by (simp add: valid_draw_def)
  have h2: "map_of [(''k'', all_seats)] ''k'' = Some all_seats" by simp
  have h3: "set all_seats \<subseteq> set all_seats" by simp
  from generate_seat_number_full_never_returns [OF h1 h2 h3] h1 h2 h3 show ?thesis by blast
qed

lemma seats_distinctD: "seats_distinct sa \<Longrightarrow> map_of sa key = Some issued \<Longrightarrow> distinct issued"
  unfolding seats_distinct_def by blast

lemma generate_seat_number_distinct:
  assumes "generate_seat_number rnd key sa = Some (seat, sa')" and "seats_distinct sa"
  shows "seats_distinct sa'"
proof -
  define old where "old = (case map_of sa key of None \<Rightarrow> [] | Some issued \<Rightarrow> issued)"
  from assms(1) obtain issued' where loop: "seat_loop rnd old 0 = Some (seat, issued')"
    and sa': "sa' = AList.update key issued' sa"
    unfolding generate_seat_number_def old_def by (auto split: option.splits)
  from seat_loop_result [OF loop] have new: "seat \<notin> set old" and app: "issued' = old @ [seat]"
    by simp_all
  have "distinct old"
  proof (cases "map_of sa key")
    case None
    then show ?thesis by (simp add: old_def)
  next
    case (Some issued)
    from seats_distinctD [OF assms(2) Some] Some show ?thesis by (simp add: old_def)
  qed
  with new app have d: "distinct issued'" by simp
  show ?thesis
    unfolding seats_distinct_def
  proof (intro allI impI)
    fix k xs assume "map_of sa' k = Some xs"
    then have eq: "((map_of sa)(key \<mapsto> issued')) k = Some xs" by (simp only: sa' update_conv')
    show "distinct xs"
    proof (cases "k = key")
      case True
      with eq d show ?thesis by simp
    next
      case False
      with eq have "map_of sa k = Some xs" by simp
      with assms(2) show ?thesis by (rule seats_distinctD)
    qed
  qed
qed

lemma issue_seats_distinct:
  "issue_seats sa calls = Some sa' \<Longrightarrow> seats_distinct sa \<Longrightarrow> seats_distinct sa'"
proof (induction calls arbitrary: sa)
  case Nil
  then show ?case by simp
next
  case (Cons call calls)
  from Cons.prems(1) obtain seat sa1
    where g: "generate_seat_number (fst call) (snd call) sa = Some (seat, sa1)"
      and rest: "issue_seats sa1 calls = Some sa'"
    by (auto split: option.splits)
  from g Cons.prems(2) have "seats_distinct sa1" by (rule generate_seat_number_distinct)
  with rest show ?case by (rule Cons.IH)
qed

text \<open>Claim C5. After any sequence of seat assignments that starts from the empty table,
  the seat codes recorded for a flight key are pairwise distinct. (A call returns as soon as a
  draw gives a seat that is free; once the 180 codes of a key are issued none is.)\<close>

theorem issued_seats_distinct:
  assumes "issue_seats [] calls = Some sa" and "map_of sa key = Some issued"
  shows "distinct issued"
proof -
  have "seats_distinct []" by (simp add: seats_distinct_def)
  with assms(1) have "seats_distinct sa" by (rule issue_seats_distinct)
  then show ?thesis using assms(2) by (rule seats_distinctD)
qed

theorem issued_seats_distinct_witness:
  "issue_seats [] [(\<lambda>i. (int i + 1, CHR ''A''), ''k''), (\<lambda>i. (int i + 1, CHR ''A''), ''k'')]
     = Some [(''k'', [''1A'', ''2A''])] \<and>
   map_of [(''k'', [''1A'', ''2A''])] ''k'' = Some [''1A'', ''2A''] \<and> distinct [''1A'', ''2A'']"
proof -
  have run: "issue_seats [] [(\<lambda>i. (int i + 1, CHR ''A''), ''k''), (\<lambda>i. (int i + 1, CHR ''A''), ''k'')]
     = Some [(''k'', [''1A'', ''2A''])]" by code_simp
  have key: "map_of [(''k'', [''1A'', ''2A''])] ''k'' = Some [''1A'', ''2A'']" by simp
  from issued_seats_distinct [OF run key] run key show ?thesis by blast
qed

section \<open>The conversation\<close>

lemma sample_cities:
  "flights_data a = sample_flights \<Longrightarrow>
   get_available_cities a = [''Chicago'', ''Los Angeles'', ''Miami'', ''New York'', ''Seattle'']"
proof -
  have "sort (remdups (map fst sample_flights @
          concat (map (\<lambda>destination_dict. map fst (snd destination_dict)) sample_flights))) =
        [''Chicago'', ''Los Angeles'', ''Miami'', ''New York'', ''Seattle'']"
    by code_simp
  then show "flights_data a = sample_flights \<Longrightarrow> ?thesis"
    by (simp only: get_available_cities_def)
qed

lemma find_in_set: "find P xs = Some x \<Longrightarrow> x \<in> set xs"
  by (induction xs) (auto split: if_splits)

lemma match_city_found:
  "find (\<lambda>city. sublist (py_lower city) (py_lower message)) cities = Some city \<Longrightarrow>
   city \<noteq> [] \<Longrightarrow> match_city cities message = Some city"
  by (simp add: match_city_def)

lemma handle_get_source:
  "step (current_session a) = Get_source \<Longrightarrow>
   match_city (get_available_cities a) message = Some city \<Longrightarrow>
   handle_booking_flow e a message =
     Some (Inr (departure_ok_text city
                  (join '', '' (filter (\<lambda>c. c \<noteq> city) (get_available_cities a))),
                a\<lparr>current_session := (current_session a)\<lparr>source := Some city,
                                                         step := Get_destination\<rparr>\<rparr>))"
  by (simp add: handle_booking_flow_def Let_def)

lemma claimed_city_order_keys: "claimed_city_order = map fst sample_flights"
  by code_simp

text \<open>Claim C1. The claim says that the lines \<^verbatim>\<open>book\<close>, \<^verbatim>\<open>New York\<close>, \<^verbatim>\<open>Chicago\<close>,
  \<^verbatim>\<open>1\<close>, \<^verbatim>\<open>Name: Ann Lee, Age: 29\<close> end with the confirmation of booking FL1000. In
  the code the lower-case line \<^verbatim>\<open>chicago\<close> contains the greeting word \<^verbatim>\<open>hi\<close>, so the third
  line resets the session and is answered with the welcome text; the last two lines are
  then not understood, and no booking is made: the conversation ends in the initial
  state.\<close>

theorem chicago_flow_is_reset:
  "converse init_assistant
     [(e1, ''book''), (e2, ''New York''), (e3, ''Chicago''), (e4, ''1''),
      (e5, ''Name: Ann Lee, Age: 29'')] =
   Some (Inr ([book_prompt_text ''Chicago, Los Angeles, Miami, New York, Seattle'',
               departure_ok_text ''New York'' ''Chicago, Los Angeles, Miami, Seattle'',
               welcome_text ''Chicago, Los Angeles, Miami, New York, Seattle'',
               unrecognized_text, unrecognized_text], init_assistant))"
  by code_simp

text \<open>The word test that takes the third line, and the same conversation with Miami as
  destination, which does end with booking FL1000.\<close>

lemma chicago_is_greeting: "any_in [''hello'', ''hi'', ''hey'', ''start''] (py_lower (py_strip ''Chicago''))"
  by code_simp

lemma miami_flow_books:
  "map_option (map_sum id (\<lambda>(responses, a). (bookings a, current_session a, booking_counter a)))
     (converse init_assistant
        [(calm_env, ''book''), (calm_env, ''New York''), (calm_env, ''Miami''), (calm_env, ''1''),
         (calm_env, ''Name: Ann Lee, Age: 29'')]) =
   Some (Inr ([\<lparr>booking_number = ''FL1000'', booking_date = ''2024-01-01 00:00:00'',
                 b_passenger_name = Some ''ann lee'', b_passenger_age = Some 29,
                 b_source = Some ''New York'', b_destination = Some ''Miami'',
                 b_airline = ''SunAir'', departure_time = ''06:45'', b_duration = ''3h 15m'',
                 b_price = 189, seat_number = ''1A''\<rparr>], empty_session, 1001))"
  by code_simp

text \<open>Claim C2. The claim says that \<^verbatim>\<open>check flights from New York to Miami\<close> returns
  the two offers for Miami. The code takes the single word after \<^verbatim>\<open>from\<close> and the single
  word after \<^verbatim>\<open>to\<close>, so it looks up the route from \<^verbatim>\<open>New\<close> to \<^verbatim>\<open>Miami\<close> and answers that
  there are no flights.\<close>

theorem check_new_york_miami_not_found:
  "process_message e init_assistant ''check flights from New York to Miami'' =
   Some (Inr (no_flights_text ''New'' ''Miami'', init_assistant))"
  by code_simp

text \<open>Claim C4, as stated: the city scan of \<^verbatim>\<open>get_source\<close> follows the order of the catalog,
  New York first. It does not: in \<^verbatim>\<open>miami or new york\<close> the first city of that order is New
  York, and the origin stored is Miami.\<close>

theorem city_scan_declared_order_counterexample:
  "find (\<lambda>city. sublist (py_lower city) (py_lower ''miami or new york'')) claimed_city_order
     = Some ''New York'' \<and>
   map_option (map_sum id (\<lambda>(responses, a). source (current_session a)))
     (converse init_assistant [(calm_env, ''book''), (calm_env, ''miami or new york'')])
     = Some (Inr (Some ''Miami''))"
  by code_simp

text \<open>Claim C4, amended: \<^verbatim>\<open>get_available_cities\<close> sorts the names, so with the catalog of
  the source the scan tries Chicago, Los Angeles, Miami, New York, Seattle in this order,
  and at step \<^verbatim>\<open>get_source\<close> the first of them whose lower case occurs in the lower-case
  message is stored as origin, the step becoming \<^verbatim>\<open>get_destination\<close>.\<close>

theorem city_scan_sorted_order:
  assumes "flights_data a = sample_flights" and "step (current_session a) = Get_source"
    and "find (\<lambda>city. sublist (py_lower city) (py_lower message))
           [''Chicago'', ''Los Angeles'', ''Miami'', ''New York'', ''Seattle''] = Some city"
  shows "get_available_cities a = [''Chicago'', ''Los Angeles'', ''Miami'', ''New York'', ''Seattle''] \<and>
    handle_booking_flow e a message =
      Some (Inr (departure_ok_text city
                   (join '', '' (filter (\<lambda>c. c \<noteq> city)
                      [''Chicago'', ''Los Angeles'', ''Miami'', ''New York'', ''Seattle''])),
                 a\<lparr>current_session := (current_session a)\<lparr>source := Some city,
                                                          step := Get_destination\<rparr>\<rparr>))"
proof -
  note c = sample_cities [OF assms(1)]
  from find_in_set [OF assms(3)] have "city \<noteq> []" by auto
  with assms(3) have "match_city [''Chicago'', ''Los Angeles'', ''Miami'', ''New York'', ''Seattle''] message = Some city"
    by (rule match_city_found)
  then have "match_city (get_available_cities a) message = Some city"
    by (simp only: c)
  from handle_get_source [OF assms(2) this] c show ?thesis by (simp only: simp_thms)
qed

theorem city_scan_sorted_order_witness:
  "flights_data (init_assistant\<lparr>current_session := empty_session\<lparr>step := Get_source\<rparr>\<rparr>) = sample_flights \<and>
   step (current_session (init_assistant\<lparr>current_session := empty_session\<lparr>step := Get_source\<rparr>\<rparr>)) = Get_source \<and>
   find (\<lambda>city. sublist (py_lower city) (py_lower ''miami or new york''))
     [''Chicago'', ''Los Angeles'', ''Miami'', ''New York'', ''Seattle''] = Some ''Miami'' \<and>
   handle_booking_flow calm_env (init_assistant\<lparr>current_session := empty_session\<lparr>step := Get_source\<rparr>\<rparr>)
     ''miami or new york'' =
     Some (Inr (departure_ok_text ''Miami'' ''Chicago, Los Angeles, New York, Seattle'',
                init_assistant\<lparr>current_session := empty_session\<lparr>source := Some ''Miami'',
                                                                 step := Get_destination\<rparr>\<rparr>))"
proof -
  let ?a = "init_assistant\<lparr>current_session := empty_session\<lparr>step := Get_source\<rparr>\<rparr>"
  have h1: "flights_data ?a = sample_flights" by (simp add: init_assistant_def)
  have h2: "step (current_session ?a) = Get_source" by simp
  have h3: "find (\<lambda>city. sublist (py_lower city) (py_lower ''miami or new york''))
     [''Chicago'', ''Los Angeles'', ''Miami'', ''New York'', ''Seattle''] = Some ''Miami''"
    by code_simp
  have j: "join '', '' (filter (\<lambda>c. c \<noteq> ''Miami'')
             [''Chicago'', ''Los Angeles'', ''Miami'', ''New York'', ''Seattle'']) =
           ''Chicago, Los Angeles, New York, Seattle''" by simp
  have r: "handle_booking_flow calm_env ?a ''miami or new york'' =
     Some (Inr (departure_ok_text ''Miami'' ''Chicago, Los Angeles, New York, Seattle'',
                init_assistant\<lparr>current_session := empty_session\<lparr>source := Some ''Miami'',
                                                                 step := Get_destination\<rparr>\<rparr>))"
    using city_scan_sorted_order [OF h1 h2 h3, of calm_env] by (simp add: j)
  from h1 h2 h3 r show ?thesis by (intro conjI)
qed

subsection \<open>Choosing a flight\<close>

lemma handle_select_flight:
  assumes "step (current_session a) = Select_flight"
  shows "handle_booking_flow e a message =
     (case py_int (py_strip message) of
        None \<Rightarrow> Some (Inr (option_number_text, a))
      | Some choice \<Rightarrow>
          (case route_or_raise (flights_data a) (source (current_session a))
                  (destination (current_session a)) of
             Inl ex \<Rightarrow> Some (Inl ex)
           | Inr flights \<Rightarrow>
               if 1 \<le> choice \<and> choice \<le> int (length flights) then
                 Some (Inr (flight_selected_text (flights ! nat (choice - 1)),
                            a\<lparr>current_session :=
                                 (current_session a)\<lparr>selected_flight := Some (flights ! nat (choice - 1)),
                                   step := Get_passenger_details\<rparr>\<rparr>))
               else Some (Inr (invalid_option_text (length flights), a))))"
  using assms by (simp add: handle_booking_flow_def Let_def)

text \<open>Claim C6. At step \<^verbatim>\<open>select_flight\<close> with a stored route of \<open>N\<close> offers, in the step
  handler \<^verbatim>\<open>handle_booking_flow\<close>: a message that reads as an integer \<open>k\<close> from 1 to \<open>N\<close>
  stores the \<open>k\<close>-th offer and moves to \<^verbatim>\<open>get_passenger_details\<close>; an integer outside this
  range, or a message that is no integer, is answered with a new prompt and leaves the
  whole state as it is.\<close>

theorem select_flight_choice:
  assumes "step (current_session a) = Select_flight"
    and "route_or_raise (flights_data a) (source (current_session a))
           (destination (current_session a)) = Inr flights"
  shows "(py_int (py_strip message) = Some k \<and> 1 \<le> k \<and> k \<le> int (length flights) \<longrightarrow>
            handle_booking_flow e a message =
              Some (Inr (flight_selected_text (flights ! nat (k - 1)),
                         a\<lparr>current_session :=
                              (current_session a)\<lparr>selected_flight := Some (flights ! nat (k - 1)),
                                                  step := Get_passenger_details\<rparr>\<rparr>))) \<and>
         (py_int (py_strip message) = Some k \<and> (k < 1 \<or> int (length flights) < k) \<longrightarrow>
            handle_booking_flow e a message =
              Some (Inr (invalid_option_text (length flights), a))) \<and>
         (py_int (py_strip message) = None \<longrightarrow>
            handle_booking_flow e a message = Some (Inr (option_number_text, a)))"
  by (auto simp: handle_select_flight [OF assms(1)] assms(2))

theorem select_flight_choice_witness:
  "handle_booking_flow calm_env
     (init_assistant\<lparr>current_session := empty_session\<lparr>source := Some ''New York'',
        destination := Some ''Miami'', step := Select_flight\<rparr>\<rparr>) ''2'' =
     Some (Inr (flight_selected_text (mk_flight ''TropicWings'' ''16:20'' 209 ''3h 05m''),
                init_assistant\<lparr>current_session := empty_session\<lparr>source := Some ''New York'',
                  destination := Some ''Miami'',
                  selected_flight := Some (mk_flight ''TropicWings'' ''16:20'' 209 ''3h 05m''),
                  step := Get_passenger_details\<rparr>\<rparr>)) \<and>
   handle_booking_flow calm_env
     (init_assistant\<lparr>current_session := empty_session\<lparr>source := Some ''New York'',
        destination := Some ''Miami'', step := Select_flight\<rparr>\<rparr>) ''3'' =
     Some (Inr (invalid_option_text 2,
                init_assistant\<lparr>current_session := empty_session\<lparr>source := Some ''New York'',
                  destination := Some ''Miami'', step := Select_flight\<rparr>\<rparr>)) \<and>
   handle_booking_flow calm_env
     (init_assistant\<lparr>current_session := empty_session\<lparr>source := Some ''New York'',
        destination := Some ''Miami'', step := Select_flight\<rparr>\<rparr>) ''two'' =
     Some (Inr (option_number_text,
                init_assistant\<lparr>current_session := empty_session\<lparr>source := Some ''New York'',
                  destination := Some ''Miami'', step := Select_flight\<rparr>\<rparr>))"
proof -
  let ?a = "init_assistant\<lparr>current_session := empty_session\<lparr>source := Some ''New York'',
              destination := Some ''Miami'', step := Select_flight\<rparr>\<rparr>"
  let ?flights = "[mk_flight ''SunAir'' ''06:45'' 189 ''3h 15m'',
                   mk_flight ''TropicWings'' ''16:20'' 209 ''3h 05m'']"
  have h1: "step (current_session ?a) = Select_flight" by simp
  have h2: "route_or_raise (flights_data ?a) (source (current_session ?a))
              (destination (current_session ?a)) = Inr ?flights"
    by code_simp
  have p2: "py_int (py_strip ''2'') = Some 2" by code_simp
  have p3: "py_int (py_strip ''3'') = Some 3" by code_simp
  have p0: "py_int (py_strip ''two'') = None" by code_simp
  have r2: "handle_booking_flow calm_env ?a ''2'' =
     Some (Inr (flight_selected_text (mk_flight ''TropicWings'' ''16:20'' 209 ''3h 05m''),
                init_assistant\<lparr>current_session := empty_session\<lparr>source := Some ''New York'',
                  destination := Some ''Miami'',
                  selected_flight := Some (mk_flight ''TropicWings'' ''16:20'' 209 ''3h 05m''),
                  step := Get_passenger_details\<rparr>\<rparr>))"
    using select_flight_choice [OF h1 h2, of "''2''" 2 calm_env] p2 by simp
  have r3: "handle_booking_flow calm_env ?a ''3'' = Some (Inr (invalid_option_text 2, ?a))"
    using select_flight_choice [OF h1 h2, of "''3''" 3 calm_env] p3
    by (simp add: numeral_2_eq_2)
  have r0: "handle_booking_flow calm_env ?a ''two'' = Some (Inr (option_number_text, ?a))"
    using select_flight_choice [OF h1 h2, of "''two''" 0 calm_env] p0 by simp
  from r2 r3 r0 show ?thesis by (intro conjI)
qed

subsection \<open>Completing a booking\<close>

lemma complete_booking_Some:
  assumes "complete_booking e a = Some (response, a')"
  shows "current_session a' = empty_session \<and> flights_data a' = flights_data a \<and>
     (bookings a' = bookings a \<or>
      (\<exists>b. bookings a' = bookings a @ [b] \<and>
           b_passenger_name b = passenger_name (current_session a) \<and>
           (passenger_name (current_session a) \<noteq> None \<longrightarrow>
              (\<exists>ticket_status. response = booking_confirmed_text b ticket_status))))"
proof (cases "selected_flight (current_session a)")
  case None
  with assms show ?thesis
    by (auto simp: complete_booking_def Let_def reset_session_def)
next
  case (Some fl)
  let ?key = "flight_key_of (current_session a) fl"
  show ?thesis
  proof (cases "generate_seat_number (draws e) ?key (seat_assignments a)")
    case None
    with Some assms show ?thesis by (simp add: complete_booking_def Let_def)
  next
    case seat: (Some p)
    obtain seat sa where p: "p = (seat, sa)" by (cases p)
    from Some seat p assms show ?thesis
      by (cases "passenger_name (current_session a)")
         (auto simp: complete_booking_def Let_def reset_session_def create_ticket_file_def
               split: option.splits)
  qed
qed

text \<open>When \<^verbatim>\<open>complete_booking\<close> returns: always without a selected flight (the exception
  is caught), and with one as soon as a draw gives a seat that is free for the flight key.
  It does not return exactly when every draw is a seat already issued.\<close>

lemma generate_seat_number_None_iff:
  "generate_seat_number rnd key sa = None \<longleftrightarrow> (\<forall>k. seat_of (rnd k) \<in> set (issued_for sa key))"
proof
  assume none: "generate_seat_number rnd key sa = None"
  show "\<forall>k. seat_of (rnd k) \<in> set (issued_for sa key)"
  proof (rule ccontr)
    assume "\<not> (\<forall>k. seat_of (rnd k) \<in> set (issued_for sa key))"
    then obtain k where "seat_of (rnd k) \<notin> set (issued_for sa key)" by blast
    then have "seat_of (rnd k) \<notin> set (case map_of sa key of None \<Rightarrow> [] | Some issued \<Rightarrow> issued)"
      unfolding issued_for_def .
    from generate_seat_number_returns [of rnd k sa key, OF this] none show False by simp
  qed
next
  assume "\<forall>k. seat_of (rnd k) \<in> set (issued_for sa key)"
  then have "seat_loop rnd (issued_for sa key) 0 = None"
    by (intro seat_loop_never) blast
  then show "generate_seat_number rnd key sa = None"
    by (simp add: generate_seat_number_def issued_for_def)
qed

lemma complete_booking_None_iff:
  "complete_booking e a = None \<longleftrightarrow>
   (\<exists>fl. selected_flight (current_session a) = Some fl \<and>
         (\<forall>k. seat_of (draws e k)
                \<in> set (issued_for (seat_assignments a) (flight_key_of (current_session a) fl))))"
proof (cases "selected_flight (current_session a)")
  case None
  then show ?thesis by (simp add: complete_booking_def Let_def)
next
  case (Some fl)
  let ?g = "generate_seat_number (draws e) (flight_key_of (current_session a) fl)
              (seat_assignments a)"
  have "complete_booking e a = None \<longleftrightarrow> ?g = None"
    using Some
    by (auto simp: complete_booking_def Let_def split: option.splits sum.splits prod.splits)
  with Some show ?thesis by (simp add: generate_seat_number_None_iff)
qed

lemma complete_booking_returns:
  assumes "selected_flight (current_session a) = None \<or>
     (selected_flight (current_session a) = Some fl \<and>
      seat_of (draws e k)
        \<notin> set (issued_for (seat_assignments a) (flight_key_of (current_session a) fl)))"
  shows "\<exists>response a'. complete_booking e a = Some (response, a') \<and>
           current_session a' = empty_session"
proof -
  from assms have "complete_booking e a \<noteq> None"
    unfolding complete_booking_None_iff by auto
  then obtain response a' where r: "complete_booking e a = Some (response, a')"
    by (cases "complete_booking e a") auto
  from complete_booking_Some [OF r] r show ?thesis by blast
qed

text \<open>Claim C7. \<^verbatim>\<open>complete_booking\<close> resets the session on every outcome. Whenever it
  returns, with a confirmation or with the text of a caught exception, the session is the
  empty one; and it does return, with the empty session, when the session has no selected
  flight (the error outcome) and when a draw gives a seat that is free for the flight key
  (the confirmation, or the error of a missing name).\<close>

theorem complete_booking_resets_session:
  "(complete_booking e a = Some (response, a') \<longrightarrow> current_session a' = empty_session) \<and>
   (selected_flight (current_session a) = None \<longrightarrow>
      (\<exists>response a'. complete_booking e a = Some (response, a') \<and>
         current_session a' = empty_session)) \<and>
   (selected_flight (current_session a) = Some fl \<and>
    seat_of (draws e k)
      \<notin> set (issued_for (seat_assignments a) (flight_key_of (current_session a) fl)) \<longrightarrow>
      (\<exists>response a'. complete_booking e a = Some (response, a') \<and>
         current_session a' = empty_session))"
proof (intro conjI impI)
  assume "complete_booking e a = Some (response, a')"
  from complete_booking_Some [OF this] show "current_session a' = empty_session" by blast
next
  assume "selected_flight (current_session a) = None"
  then show "\<exists>response a'. complete_booking e a = Some (response, a') \<and>
      current_session a' = empty_session"
    by (intro complete_booking_returns) simp
next
  assume "selected_flight (current_session a) = Some fl \<and>
    seat_of (draws e k)
      \<notin> set (issued_for (seat_assignments a) (flight_key_of (current_session a) fl))"
  then show "\<exists>response a'. complete_booking e a = Some (response, a') \<and>
      current_session a' = empty_session"
    by (intro complete_booking_returns [where fl = fl and k = k]) simp
qed

text \<open>Both outcomes happen: a full session is confirmed, and the initial state, which has no
  selected flight, gives the error text.\<close>

theorem complete_booking_resets_session_witness:
  "complete_booking calm_env
     (init_assistant\<lparr>current_session :=
        \<lparr>source = Some ''New York'', destination = Some ''Miami'',
         selected_flight = Some (mk_flight ''SunAir'' ''06:45'' 189 ''3h 15m''),
         passenger_name = Some ''ann lee'', passenger_age = Some 29,
         step = Get_passenger_details\<rparr>\<rparr>) =
     Some (booking_confirmed_text
             \<lparr>booking_number = ''FL1000'', booking_date = ''2024-01-01 00:00:00'',
              b_passenger_name = Some ''ann lee'', b_passenger_age = Some 29,
              b_source = Some ''New York'', b_destination = Some ''Miami'',
              b_airline = ''SunAir'', departure_time = ''06:45'', b_duration = ''3h 15m'',
              b_price = 189, seat_number = ''1A''\<rparr>
             (ticket_saved_text ''ann_lee_FL1000.txt''),
           \<lparr>flights_data = sample_flights,
            bookings = [\<lparr>booking_number = ''FL1000'', booking_date = ''2024-01-01 00:00:00'',
                         b_passenger_name = Some ''ann lee'', b_passenger_age = Some 29,
                         b_source = Some ''New York'', b_destination = Some ''Miami'',
                         b_airline = ''SunAir'', departure_time = ''06:45'',
                         b_duration = ''3h 15m'', b_price = 189, seat_number = ''1A''\<rparr>],
            booking_counter = 1001,
            seat_assignments = [(''New York-Miami-SunAir'', [''1A''])],
            current_session = empty_session\<rparr>) \<and>
   current_session
     \<lparr>flights_data = sample_flights,
      bookings = [\<lparr>booking_number = ''FL1000'', booking_date = ''2024-01-01 00:00:00'',
                   b_passenger_name = Some ''ann lee'', b_passenger_age = Some 29,
                   b_source = Some ''New York'', b_destination = Some ''Miami'',
                   b_airline = ''SunAir'', departure_time = ''06:45'', b_duration = ''3h 15m'',
                   b_price = 189, seat_number = ''1A''\<rparr>],
      booking_counter = 1001,
      seat_assignments = [(''New York-Miami-SunAir'', [''1A''])],
      current_session = empty_session\<rparr> = empty_session \<and>
   complete_booking calm_env init_assistant =
     Some (booking_error_text (str_exn not_subscriptable),
           init_assistant\<lparr>booking_counter := 1001\<rparr>) \<and>
   current_session (init_assistant\<lparr>booking_counter := 1001\<rparr>) = empty_session \<and>
   selected_flight (current_session init_assistant) = None \<and>
   (\<exists>response a'. complete_booking calm_env init_assistant = Some (response, a') \<and>
      current_session a' = empty_session) \<and>
   seat_of (draws calm_env 0) \<notin> set (issued_for [] ''New York-Miami-SunAir'') \<and>
   (\<exists>response a'.
      complete_booking calm_env
        (init_assistant\<lparr>current_session :=
           \<lparr>source = Some ''New York'', destination = Some ''Miami'',
            selected_flight = Some (mk_flight ''SunAir'' ''06:45'' 189 ''3h 15m''),
            passenger_name = Some ''ann lee'', passenger_age = Some 29,
            step = Get_passenger_details\<rparr>\<rparr>) = Some (response, a') \<and>
      current_session a' = empty_session)"
proof -
  let ?full = "init_assistant\<lparr>current_session :=
             \<lparr>source = Some ''New York'', destination = Some ''Miami'',
              selected_flight = Some (mk_flight ''SunAir'' ''06:45'' 189 ''3h 15m''),
              passenger_name = Some ''ann lee'', passenger_age = Some 29,
              step = Get_passenger_details\<rparr>\<rparr>"
  let ?b = "\<lparr>booking_number = ''FL1000'', booking_date = ''2024-01-01 00:00:00'',
                   b_passenger_name = Some ''ann lee'', b_passenger_age = Some 29,
                   b_source = Some ''New York'', b_destination = Some ''Miami'',
                   b_airline = ''SunAir'', departure_time = ''06:45'', b_duration = ''3h 15m'',
                   b_price = 189, seat_number = ''1A''\<rparr>"
  have ok: "complete_booking calm_env
          (init_assistant\<lparr>current_session :=
             \<lparr>source = Some ''New York'', destination = Some ''Miami'',
              selected_flight = Some (mk_flight ''SunAir'' ''06:45'' 189 ''3h 15m''),
              passenger_name = Some ''ann lee'', passenger_age = Some 29,
              step = Get_passenger_details\<rparr>\<rparr>) =
        Some (booking_confirmed_text ?b (ticket_saved_text ''ann_lee_FL1000.txt''),
              \<lparr>flights_data = sample_flights, bookings = [?b], booking_counter = 1001,
               seat_assignments = [(''New York-Miami-SunAir'', [''1A''])],
               current_session = empty_session\<rparr>)"
    by code_simp
  have err: "complete_booking calm_env init_assistant =
        Some (booking_error_text (str_exn not_subscriptable),
              init_assistant\<lparr>booking_counter := 1001\<rparr>)"
    by code_simp
  note thm1 = complete_booking_resets_session
    [where e = calm_env and a = ?full and fl = "mk_flight ''SunAir'' ''06:45'' 189 ''3h 15m''"
       and k = 0]
  note thm2 = complete_booking_resets_session [where e = calm_env and a = init_assistant]
  have none: "selected_flight (current_session init_assistant) = None" by code_simp
  have sel: "selected_flight (current_session ?full) =
      Some (mk_flight ''SunAir'' ''06:45'' 189 ''3h 15m'')" by simp
  have key: "flight_key_of (current_session ?full) (mk_flight ''SunAir'' ''06:45'' 189 ''3h 15m'') =
      ''New York-Miami-SunAir''" by code_simp
  have tab: "seat_assignments ?full = []" by code_simp
  have free: "seat_of (draws calm_env 0) \<notin> set (issued_for [] ''New York-Miami-SunAir'')"
    by code_simp
  from thm1 ok have r1: "current_session
     \<lparr>flights_data = sample_flights, bookings = [?b], booking_counter = 1001,
      seat_assignments = [(''New York-Miami-SunAir'', [''1A''])],
      current_session = empty_session\<rparr> = empty_session" by blast
  from thm2 err have r2: "current_session (init_assistant\<lparr>booking_counter := 1001\<rparr>) = empty_session"
    by blast
  from thm2 none have r3: "\<exists>response a'. complete_booking calm_env init_assistant = Some (response, a') \<and>
      current_session a' = empty_session" by blast
  have "seat_of (draws calm_env 0) \<notin> set (issued_for (seat_assignments ?full)
      (flight_key_of (current_session ?full) (mk_flight ''SunAir'' ''06:45'' 189 ''3h 15m'')))"
    unfolding key tab by (rule free)
  with thm1 sel have r4: "\<exists>response a'. complete_booking calm_env ?full = Some (response, a') \<and>
      current_session a' = empty_session" by blast
  from ok r1 err r2 none r3 free r4 show ?thesis by (intro conjI)
qed

subsection \<open>Equal origin and destination\<close>

text \<open>The test of \<^verbatim>\<open>check_flight_availability\<close> compares the names in lower case.\<close>

lemma check_flight_availability_same_lower:
  "py_lower src = py_lower dst \<Longrightarrow> check_flight_availability a src dst = dup_city_text"
  by (simp add: check_flight_availability_def)

lemma handle_get_destination_same:
  "step (current_session a) = Get_destination \<Longrightarrow>
   match_city (get_available_cities a) message = Some city \<Longrightarrow>
   source (current_session a) = Some city \<Longrightarrow>
   handle_booking_flow e a message = Some (Inr (same_city_text, a))"
  by (simp add: handle_booking_flow_def Let_def)

text \<open>Claim C8. \<^verbatim>\<open>check_flight_availability\<close> answers a pair of equal city names with the
  duplicate-city text, whatever the catalog holds and whether or not the city has any
  route; and at step \<^verbatim>\<open>get_destination\<close> a matched city equal to the stored origin is
  refused, the state staying as it is.\<close>

theorem same_city_rejected:
  "check_flight_availability a city city = dup_city_text \<and>
   (step (current_session a) = Get_destination \<longrightarrow>
    match_city (get_available_cities a) message = Some city \<longrightarrow>
    source (current_session a) = Some city \<longrightarrow>
    handle_booking_flow e a message = Some (Inr (same_city_text, a)))"
  by (simp add: check_flight_availability_def handle_get_destination_same)

theorem same_city_rejected_witness:
  "check_flight_availability init_assistant ''Atlantis'' ''Atlantis'' = dup_city_text \<and>
   handle_booking_flow calm_env
     (init_assistant\<lparr>current_session := empty_session\<lparr>source := Some ''Miami'',
                                                       step := Get_destination\<rparr>\<rparr>)
     ''to miami'' =
   Some (Inr (same_city_text,
              init_assistant\<lparr>current_session := empty_session\<lparr>source := Some ''Miami'',
                                                                step := Get_destination\<rparr>\<rparr>))"
proof -
  let ?a = "init_assistant\<lparr>current_session := empty_session\<lparr>source := Some ''Miami'',
                                                             step := Get_destination\<rparr>\<rparr>"
  have h1: "step (current_session ?a) = Get_destination" by simp
  have h2: "match_city (get_available_cities ?a) ''to miami'' = Some ''Miami''" by code_simp
  have h3: "source (current_session ?a) = Some ''Miami''" by simp
  from same_city_rejected [where a = init_assistant and city = "''Atlantis''"]
  have "check_flight_availability init_assistant ''Atlantis'' ''Atlantis'' = dup_city_text" by blast
  moreover from same_city_rejected [where a = ?a and city = "''Miami''" and message = "''to miami''"
      and e = calm_env] h1 h2 h3
  have "handle_booking_flow calm_env ?a ''to miami'' = Some (Inr (same_city_text, ?a))" by blast
  ultimately show ?thesis by (intro conjI)
qed

subsection \<open>The stored route\<close>

lemma route_inv_start: "step (current_session a) = Start \<Longrightarrow> route_inv a"
  and route_inv_get_source: "step (current_session a) = Get_source \<Longrightarrow> route_inv a"
  and route_inv_get_destination: "step (current_session a) = Get_destination \<Longrightarrow> route_inv a"
  by (simp_all add: route_inv_def needs_route_def)

lemma route_inv_reset: "route_inv (reset_session a)"
  by (simp add: route_inv_def needs_route_def reset_session_def empty_session_def)

lemma has_route_stored:
  "has_route fd src dst = Some flights \<Longrightarrow> \<exists>so. src = Some so \<and> route_or_raise fd src (Some dst) = Inr flights"
  by (auto simp: has_route_def route_or_raise_def split: option.splits)

lemma route_stored_iff:
  "route_stored a \<longleftrightarrow>
   (\<exists>src dst flights. source (current_session a) = Some src \<and>
      destination (current_session a) = Some dst \<and>
      route_or_raise (flights_data a) (source (current_session a))
        (destination (current_session a)) = Inr flights)"
  by (auto simp: route_stored_def split: option.splits sum.splits)

lemma handle_get_source_result:
  assumes "step (current_session a) = Get_source"
    and "handle_booking_flow e a message = Some (Inr (response, a'))"
  shows "a' = a \<or>
     (step (current_session a') = Get_destination \<and> flights_data a' = flights_data a)"
  using assms by (auto simp: handle_booking_flow_def Let_def split: option.splits)

lemma handle_get_destination_result:
  assumes "step (current_session a) = Get_destination"
    and "handle_booking_flow e a message = Some (Inr (response, a'))"
  shows "a' = a \<or> a' = reset_session a \<or>
     (\<exists>dst flights. has_route (flights_data a) (source (current_session a)) dst = Some flights \<and>
        a' = a\<lparr>current_session := (current_session a)\<lparr>destination := Some dst,
                                                       step := Select_flight\<rparr>\<rparr>)"
  using assms by (auto simp: handle_booking_flow_def Let_def split: option.splits if_splits)

lemma handle_select_flight_result:
  assumes "step (current_session a) = Select_flight"
    and "handle_booking_flow e a message = Some (Inr (response, a'))"
  shows "a' = a \<or>
     (\<exists>fl. a' = a\<lparr>current_session := (current_session a)\<lparr>selected_flight := Some fl,
                                                         step := Get_passenger_details\<rparr>\<rparr>)"
  using assms(2) unfolding handle_select_flight [OF assms(1)]
  by (auto split: option.splits sum.splits if_splits)

lemma handle_passenger_details:
  assumes "step (current_session a) = Get_passenger_details"
  shows "handle_booking_flow e a message =
     (case scan_parts (split_on CHR '','' message) (None, None) of
        (Some name_part, Some age_part) \<Rightarrow>
          if name_part \<noteq> [] \<and> age_part \<noteq> [] then
            (case py_int age_part of
               None \<Rightarrow> Some (Inr (age_number_text, a))
             | Some age \<Rightarrow>
                 if age < 0 \<or> age > 120 then Some (Inr (age_range_text, a))
                 else map_option Inr
                        (complete_booking e
                           (a\<lparr>current_session := (current_session a)\<lparr>passenger_name := Some name_part,
                                                   passenger_age := Some age\<rparr>\<rparr>)))
          else Some (Inr (details_format_text, a))
      | _ \<Rightarrow> Some (Inr (details_format_text, a)))"
  using assms by (simp add: handle_booking_flow_def Let_def)

lemma scan_parts_name:
  "scan_parts parts found = (Some name, age) \<Longrightarrow>
   fst found = Some name \<or> (\<exists>p \<in> set parts. name = py_strip (drop 5 (py_strip p)))"
proof (induction parts arbitrary: found)
  case Nil
  then show ?case by simp
next
  case (Cons part0 parts)
  show ?case
  proof (cases "prefix ''name:'' (py_lower (py_strip part0))")
    case True
    with Cons.prems
    have "scan_parts parts (Some (py_strip (drop 5 (py_strip part0))), snd found) = (Some name, age)"
      by (simp add: Let_def)
    from Cons.IH [OF this] show ?thesis by auto
  next
    case False
    show ?thesis
    proof (cases "prefix ''age:'' (py_lower (py_strip part0))")
      case True
      with False Cons.prems
      have "scan_parts parts (fst found, Some (py_strip (drop 4 (py_strip part0)))) = (Some name, age)"
        by (simp add: Let_def)
      from Cons.IH [OF this] show ?thesis by auto
    next
      case no_age: False
      with False Cons.prems have "scan_parts parts found = (Some name, age)"
        by (simp add: Let_def)
      from Cons.IH [OF this] show ?thesis by auto
    qed
  qed
qed

lemma handle_passenger_details_result:
  assumes "step (current_session a) = Get_passenger_details"
    and "handle_booking_flow e a message = Some (Inr (response, a'))"
  shows "a' = a \<or>
     (\<exists>name age. complete_booking e
        (a\<lparr>current_session := (current_session a)\<lparr>passenger_name := Some name,
                                                       passenger_age := Some age\<rparr>\<rparr>) =
        Some (response, a') \<and>
        (\<exists>p \<in> set (split_on CHR '','' message). name = py_strip (drop 5 (py_strip p))))"
proof (cases "scan_parts (split_on CHR '','' message) (None, None)")
  case (Pair name_part age_part)
  show ?thesis
  proof (cases name_part)
    case None
    with Pair assms(2) show ?thesis
      unfolding handle_passenger_details [OF assms(1)] by simp
  next
    case (Some name)
    from scan_parts_name [OF Pair [unfolded Some]]
    have src: "\<exists>p \<in> set (split_on CHR '','' message). name = py_strip (drop 5 (py_strip p))"
      by simp
    from Pair Some assms(2) show ?thesis
      unfolding handle_passenger_details [OF assms(1)]
      using src by (auto split: option.splits if_splits)
  qed
qed

lemma handle_booking_flow_route_inv:
  assumes "handle_booking_flow e a message = Some (Inr (response, a'))" and "route_inv a"
  shows "route_inv a' \<and> flights_data a' = flights_data a"
proof (cases "step (current_session a)")
  case Start
  with assms have "a' = a" by (simp add: handle_booking_flow_def Let_def)
  with assms(2) show ?thesis by simp
next
  case Get_source
  from handle_get_source_result [OF Get_source assms(1)] assms(2) show ?thesis
    by (auto simp: route_inv_get_destination)
next
  case Get_destination
  from handle_get_destination_result [OF Get_destination assms(1)]
  consider "a' = a" | "a' = reset_session a"
    | dst flights where "has_route (flights_data a) (source (current_session a)) dst = Some flights"
        "a' = a\<lparr>current_session := (current_session a)\<lparr>destination := Some dst,
                                                       step := Select_flight\<rparr>\<rparr>"
    by blast
  then show ?thesis
  proof cases
    case 1
    with assms(2) show ?thesis by simp
  next
    case 2
    then show ?thesis by (simp add: route_inv_reset) (simp add: reset_session_def)
  next
    case 3
    from has_route_stored [OF 3(1)] 3(2) show ?thesis
      by (auto simp: route_inv_def route_stored_iff)
  qed
next
  case Select_flight
  from assms(2) Select_flight have "route_stored a" by (simp add: route_inv_def needs_route_def)
  with handle_select_flight_result [OF Select_flight assms(1)] assms(2) show ?thesis
    by (auto simp: route_inv_def route_stored_iff)
next
  case Get_passenger_details
  from handle_passenger_details_result [OF Get_passenger_details assms(1)]
  show ?thesis
  proof
    assume "a' = a"
    with assms(2) show ?thesis by simp
  next
    assume "\<exists>name age. complete_booking e
        (a\<lparr>current_session := (current_session a)\<lparr>passenger_name := Some name,
                                                       passenger_age := Some age\<rparr>\<rparr>) =
        Some (response, a') \<and>
        (\<exists>p \<in> set (split_on CHR '','' message). name = py_strip (drop 5 (py_strip p)))"
    then obtain name age where "complete_booking e
        (a\<lparr>current_session := (current_session a)\<lparr>passenger_name := Some name,
                                                       passenger_age := Some age\<rparr>\<rparr>) =
        Some (response, a')" by blast
    from complete_booking_Some [OF this]
    have "current_session a' = empty_session" and "flights_data a' = flights_data a" by simp_all
    then show ?thesis by (simp add: route_inv_start empty_session_def)
  qed
qed

lemma process_message_route_inv:
  assumes "process_message e a line = Some (Inr (response, a'))" and "route_inv a"
  shows "route_inv a' \<and> flights_data a' = flights_data a"
proof -
  let ?m = "py_lower (py_strip line)"
  from assms(1) consider "a' = a" | "a' = reset_session a"
    | "a' = a\<lparr>current_session := (current_session a)\<lparr>step := Get_source\<rparr>\<rparr>"
    | "handle_booking_flow e a ?m = Some (Inr (response, a'))"
    by (auto simp: process_message_def Let_def split: if_splits option.splits)
  then show ?thesis
  proof cases
    case 1
    with assms(2) show ?thesis by simp
  next
    case 2
    then show ?thesis by (simp add: route_inv_reset) (simp add: reset_session_def)
  next
    case 3
    then show ?thesis by (simp add: route_inv_get_source)
  next
    case 4
    from handle_booking_flow_route_inv [OF 4 assms(2)] show ?thesis .
  qed
qed

lemma reachable_route_inv: "reachable a \<Longrightarrow> route_inv a \<and> flights_data a = sample_flights"
proof (induction rule: reachable.induct)
  case initial
  show ?case by (simp add: route_inv_start init_assistant_def empty_session_def)
next
  case (message a e line response a')
  from process_message_route_inv [OF message.hyps(2)] message.IH show ?case by simp
qed

lemma process_message_no_raise:
  assumes "route_inv a"
  shows "process_message e a line \<noteq> Some (Inl ex)"
proof
  assume raised: "process_message e a line = Some (Inl ex)"
  let ?m = "py_lower (py_strip line)"
  from raised have h: "handle_booking_flow e a ?m = Some (Inl ex)"
    by (auto simp: process_message_def Let_def split: if_splits option.splits)
  show False
  proof (cases "step (current_session a)")
    case Select_flight
    with assms have "route_stored a" by (simp add: route_inv_def needs_route_def)
    with h show False
      unfolding handle_select_flight [OF Select_flight]
      by (auto simp: route_stored_iff split: option.splits sum.splits if_splits)
  next
    case Get_passenger_details
    with h show False
      unfolding handle_passenger_details [OF Get_passenger_details]
      by (auto split: option.splits if_splits prod.splits)
  qed (use h in \<open>auto simp: handle_booking_flow_def Let_def split: option.splits if_splits\<close>)
qed

lemma returned_state:
  "map_option (map_sum id snd) x = Some (Inr a') \<Longrightarrow> \<exists>response. x = Some (Inr (response, a'))"
  by (cases x) (auto simp: map_sum_def split: sum.splits)

text \<open>Claim C9. In every state that a conversation reaches from the initial one, a session
  at step \<^verbatim>\<open>select_flight\<close> or \<^verbatim>\<open>get_passenger_details\<close> has an origin and a destination
  for which the catalog has offers; hence no message makes \<^verbatim>\<open>process_message\<close> raise, the
  lookup of \<^verbatim>\<open>select_flight\<close> being the one place that could.\<close>

theorem reachable_route_stored:
  assumes "reachable a"
  shows "(step (current_session a) = Select_flight \<or>
          step (current_session a) = Get_passenger_details \<longrightarrow> route_stored a) \<and>
         process_message e a line \<noteq> Some (Inl ex)"
proof -
  from reachable_route_inv [OF assms] have inv: "route_inv a" by simp
  from inv process_message_no_raise [OF inv] show ?thesis
    by (simp add: route_inv_def needs_route_def)
qed

theorem reachable_route_stored_witness:
  "reachable (init_assistant\<lparr>current_session := empty_session\<lparr>source := Some ''New York'',
       destination := Some ''Miami'', step := Select_flight\<rparr>\<rparr>) \<and>
   step (current_session (init_assistant\<lparr>current_session := empty_session\<lparr>source := Some ''New York'',
       destination := Some ''Miami'', step := Select_flight\<rparr>\<rparr>)) = Select_flight \<and>
   route_stored (init_assistant\<lparr>current_session := empty_session\<lparr>source := Some ''New York'',
       destination := Some ''Miami'', step := Select_flight\<rparr>\<rparr>) \<and>
   process_message calm_env
     (init_assistant\<lparr>current_session := empty_session\<lparr>source := Some ''New York'',
       destination := Some ''Miami'', step := Select_flight\<rparr>\<rparr>) ''1'' \<noteq> Some (Inl (KeyError None))"
proof -
  let ?a1 = "init_assistant\<lparr>current_session := empty_session\<lparr>step := Get_source\<rparr>\<rparr>"
  let ?a2 = "init_assistant\<lparr>current_session := empty_session\<lparr>source := Some ''New York'',
               step := Get_destination\<rparr>\<rparr>"
  let ?a3 = "init_assistant\<lparr>current_session := empty_session\<lparr>source := Some ''New York'',
               destination := Some ''Miami'', step := Select_flight\<rparr>\<rparr>"
  have "\<exists>response. process_message calm_env init_assistant ''book'' = Some (Inr (response, ?a1))"
    by (rule returned_state) code_simp
  then obtain r1 where s1: "process_message calm_env init_assistant ''book'' = Some (Inr (r1, ?a1))" ..
  have "\<exists>response. process_message calm_env ?a1 ''New York'' = Some (Inr (response, ?a2))"
    by (rule returned_state) code_simp
  then obtain r2 where s2: "process_message calm_env ?a1 ''New York'' = Some (Inr (r2, ?a2))" ..
  have "\<exists>response. process_message calm_env ?a2 ''Miami'' = Some (Inr (response, ?a3))"
    by (rule returned_state) code_simp
  then obtain r3 where s3: "process_message calm_env ?a2 ''Miami'' = Some (Inr (r3, ?a3))" ..
  have reach: "reachable ?a3"
    by (rule reachable.message [OF reachable.message [OF reachable.message [OF reachable.initial s1] s2] s3])
  have st: "step (current_session ?a3) = Select_flight" by simp
  from reachable_route_stored [OF reach, of calm_env "''1''" "KeyError None"] st reach
  show ?thesis by blast
qed

subsection \<open>The passenger name\<close>


















end
